theory Spec2Isabelle
  imports Main
begin

section \<open>The Achievo certificate contract (src/achievo/src/contract.ts)\<close>

text \<open>
  A shallow embedding of the class \<open>AchievoContract\<close>. Every interface of the source is a
  record, every \<open>LookupMap\<close> a partial map from its string key, every \<open>@call\<close> method a
  function from the contract state to an outcome and the state the method leaves behind,
  every \<open>@view\<close> method a function of the state alone.

  Field names are those of the source; where two interfaces share a field name (\<open>id\<close>,
  \<open>name\<close>, \<open>registered_at\<close>, \<open>learner_id\<close>) the record's name is put in front.
\<close>

subsection \<open>Data model\<close>

record Individual =
  individual_id :: string
  individual_name :: string
  dob :: string
  email :: string
  individual_registered_at :: string

record Organization =
  organization_id :: string
  organization_name :: string
  contact_info :: string
  verified :: bool
  organization_registered_at :: string

record CertificateMetadata =
  learner_id :: string
  course_id :: string
  course_name :: string
  completion_date :: string
  issuer_org_id :: string
  skills :: "string list"
  grade :: "string option"

record Certificate =
  certificate_id :: string
  metadata :: CertificateMetadata
  status :: string
  issued_at :: string
  updated_at :: string

record Reward =
  reward_id :: string
  reward_learner_id :: string
  milestone :: string
  amount :: string
  granted_at :: string

record UpdateLog =
  timestamp :: string
  action :: string
  reason :: string
  by_account :: string

text \<open>
  The storage collections and the two counters of the class. The counters are JavaScript
  numbers that start at 0 and change only by \<open>++\<close> (\<open>js_increment\<close> below), so they
  hold natural numbers up to \<open>2 ^ 53\<close>.
\<close>

record AchievoContract =
  individuals :: "string \<rightharpoonup> Individual"
  organizations :: "string \<rightharpoonup> Organization"
  certificates :: "string \<rightharpoonup> Certificate"
  rewards :: "string \<rightharpoonup> Reward"
  certificate_history :: "string \<rightharpoonup> UpdateLog list"
  certificate_counter :: nat
  reward_counter :: nat

text \<open>The state the constructor and the field initialisers build.\<close>

definition init :: AchievoContract where
  "init = \<lparr>individuals = Map.empty, organizations = Map.empty, certificates = Map.empty,
     rewards = Map.empty, certificate_history = Map.empty,
     certificate_counter = 0, reward_counter = 0\<rparr>"

subsection \<open>What a call reads from its host, and what it hands back\<close>

text \<open>
  A call reads from the host: the caller (\<open>near.predecessorAccountId()\<close>), the attached
  deposit (\<open>near.attachedDeposit()\<close>, an unsigned amount), and the clock: \<open>now e k\<close> is
  what the \<open>k\<close>-th evaluation of \<open>new Date().toISOString()\<close> of the call returns, counted
  from 0. The JavaScript built-in \<open>BigInt(string)\<close> is a parameter as well: \<open>BigInt e a\<close>
  is \<open>None\<close> where the built-in throws a SyntaxError and the integer it returns otherwise.
\<close>

record env =
  predecessorAccountId :: string
  attachedDeposit :: nat
  now :: "nat \<Rightarrow> string"
  BigInt :: "string \<Rightarrow> int option"

text \<open>
  Every \<open>throw new Error(msg)\<close> is a value of \<open>error\<close> that carries \<open>msg\<close>; the
  constructor is the kind of failure the message stands for. \<open>NotPayable\<close> is the error
  of the decorator \<open>@call\<close>, \<open>SyntaxError\<close> that of \<open>BigInt\<close>.
\<close>

datatype error =
    AlreadyRegistered string
  | NotFound string
  | Unauthorized string
  | InsufficientFunds string
  | Revoked string
  | NotPayable string
  | SyntaxError

text \<open>
  What a call asks of the host besides storage: a line of \<open>near.log\<close>, or the transfer
  that \<open>promiseBatchCreate\<close>, \<open>promiseBatchActionTransfer\<close> and \<open>promiseReturn\<close> set up.
\<close>

datatype effect = Log string | Transfer string int

text \<open>
  A \<open>@call\<close> method yields the error it throws, or the value it returns with the effects
  it requested; and the state as the method has written it when it stops.
\<close>

type_synonym 'a outcome = "(error + 'a \<times> effect list) \<times> AchievoContract"

text \<open>
  The decorator \<open>@call({})\<close> of near-sdk-js wraps the method it decorates: with
  \<open>payableFunction\<close> left false, the wrapper throws \<open>Function is not payable\<close> when
  \<open>near.attachedDeposit() > 0n\<close>, before the body runs, and calls the body otherwise.
  (\<open>privateFunction\<close> is left false everywhere, so the wrapper's other test never
  fires.) Seven methods carry \<open>@call({})\<close>; \<open>process_payment\<close> carries
  \<open>@call({ payableFunction: true })\<close>, whose wrapper calls the body at once.
\<close>

definition non_payable :: "env \<Rightarrow> AchievoContract \<Rightarrow> 'a outcome \<Rightarrow> 'a outcome" where
  "non_payable e s body =
     (if 0 < attachedDeposit e then (Inl (NotPayable ''Function is not payable''), s)
      else body)"

text \<open>
  \<open>n++\<close> on a number that holds the integer \<open>n\<close>. A number is a double: below
  \<open>2 ^ 53\<close> the sum \<open>n + 1\<close> is exact, and \<open>2 ^ 53 + 1\<close> is rounded back to
  \<open>2 ^ 53\<close>. A counter that starts at 0 therefore never passes \<open>2 ^ 53\<close>, and
  \<open>js_increment\<close> is \<open>++\<close> on the values from 0 to \<open>2 ^ 53\<close>.
\<close>

definition js_increment :: "nat \<Rightarrow> nat" where
  "js_increment n = (if n < 2 ^ 53 then n + 1 else n)"

subsection \<open>Numbers in template strings\<close>

text \<open>
  \<open>`cert_${n}`\<close> and \<open>`reward_${n}`\<close> write the counter in decimal, most significant
  digit first and with no leading zero (a number below \<open>10 ^ 21\<close> is written without an
  exponent).
\<close>

definition digit :: "nat \<Rightarrow> char" where
  "digit d = char_of (48 + d)"

fun string_of_nat :: "nat \<Rightarrow> string" where
  "string_of_nat n =
     (if n < 10 then [digit n] else string_of_nat (n div 10) @ [digit (n mod 10)])"

declare string_of_nat.simps [simp del]

definition cert_key :: "nat \<Rightarrow> string" where
  "cert_key n = ''cert_'' @ string_of_nat n"

definition reward_key :: "nat \<Rightarrow> string" where
  "reward_key n = ''reward_'' @ string_of_nat n"

subsection \<open>Identity: registration and verification\<close>

definition register_individual ::
  "env \<Rightarrow> string \<Rightarrow> string \<Rightarrow> string \<Rightarrow> AchievoContract \<Rightarrow> unit outcome" where
  "register_individual e name' dob' email' s = non_payable e s
     (let caller = predecessorAccountId e in
      if individuals s caller \<noteq> None
      then (Inl (AlreadyRegistered ''Individual already registered''), s)
      else
        let individual = \<lparr>individual_id = caller, individual_name = name', dob = dob',
              email = email', individual_registered_at = now e 0\<rparr>
        in (Inr ((), [Log (''Individual registered: '' @ caller @ '' - '' @ name')]),
            s\<lparr>individuals := (individuals s)(caller \<mapsto> individual)\<rparr>))"

definition register_organization ::
  "env \<Rightarrow> string \<Rightarrow> string \<Rightarrow> AchievoContract \<Rightarrow> unit outcome" where
  "register_organization e name' contact_info' s = non_payable e s
     (let caller = predecessorAccountId e in
      if organizations s caller \<noteq> None
      then (Inl (AlreadyRegistered ''Organization already registered''), s)
      else
        let organization = \<lparr>organization_id = caller, organization_name = name',
              contact_info = contact_info', verified = False,
              organization_registered_at = now e 0\<rparr>
        in (Inr ((), [Log (''Organization registered: '' @ caller @ '' - '' @ name'
                          @ '' (pending verification)'')]),
            s\<lparr>organizations := (organizations s)(caller \<mapsto> organization)\<rparr>))"

definition verify_organization :: "env \<Rightarrow> string \<Rightarrow> AchievoContract \<Rightarrow> unit outcome" where
  "verify_organization e organization_id' s = non_payable e s
     (case organizations s organization_id' of
        None \<Rightarrow> (Inl (NotFound ''Organization not found''), s)
      | Some organization \<Rightarrow>
          (Inr ((), [Log (''Organization verified: '' @ organization_id')]),
           s\<lparr>organizations :=
               (organizations s)(organization_id' \<mapsto> organization\<lparr>verified := True\<rparr>)\<rparr>))"

subsection \<open>Certificates\<close>

text \<open>The first entry of a certificate's history, as \<open>issue_certificate\<close> builds it.\<close>

definition initial_log :: "env \<Rightarrow> UpdateLog" where
  "initial_log e = \<lparr>timestamp = now e 2, action = ''issued'',
     reason = ''Certificate issued'', by_account = predecessorAccountId e\<rparr>"

text \<open>
  The object spread \<open>{...metadata, learner_id, course_id, issuer_org_id: caller}\<close> copies
  the fields of the argument and then writes the three named ones.
\<close>

definition issue_certificate ::
  "env \<Rightarrow> string \<Rightarrow> string \<Rightarrow> CertificateMetadata \<Rightarrow> AchievoContract \<Rightarrow> string outcome" where
  "issue_certificate e learner_id' course_id' metadata' s = non_payable e s
     (let caller = predecessorAccountId e in
      if (case organizations s caller of None \<Rightarrow> True | Some organization \<Rightarrow> \<not> verified organization)
      then (Inl (Unauthorized ''Only verified organizations can issue certificates''), s)
      else if individuals s learner_id' = None
      then (Inl (NotFound ''Learner not found''), s)
      else
        let s1 = s\<lparr>certificate_counter := js_increment (certificate_counter s)\<rparr>;
            certificate_id' = cert_key (certificate_counter s1);
            certificate = \<lparr>certificate_id = certificate_id',
              metadata = metadata'\<lparr>learner_id := learner_id', course_id := course_id',
                                    issuer_org_id := caller\<rparr>,
              status = ''pending'', issued_at = now e 0, updated_at = now e 1\<rparr>;
            s2 = s1\<lparr>certificates := (certificates s1)(certificate_id' \<mapsto> certificate)\<rparr>;
            s3 = s2\<lparr>certificate_history :=
                      (certificate_history s2)(certificate_id' \<mapsto> [initial_log e])\<rparr>
        in (Inr (certificate_id',
                 [Log (''Certificate issued: '' @ certificate_id' @ '' for '' @ learner_id')]),
            s3))"

text \<open>The entries that a status update and a revocation push onto the history.\<close>

definition status_updated_log :: "env \<Rightarrow> string \<Rightarrow> UpdateLog" where
  "status_updated_log e new_status = \<lparr>timestamp = now e 1, action = ''status_updated'',
     reason = ''Status changed to '' @ new_status, by_account = predecessorAccountId e\<rparr>"

definition revoked_log :: "env \<Rightarrow> string \<Rightarrow> UpdateLog" where
  "revoked_log e reason' = \<lparr>timestamp = now e 1, action = ''revoked'',
     reason = reason', by_account = predecessorAccountId e\<rparr>"

text \<open>\<open>this.certificate_history.get(certificate_id) || []\<close>\<close>

definition history_or_empty :: "AchievoContract \<Rightarrow> string \<Rightarrow> UpdateLog list" where
  "history_or_empty s certificate_id' =
     (case certificate_history s certificate_id' of None \<Rightarrow> [] | Some history \<Rightarrow> history)"

definition update_certificate_status ::
  "env \<Rightarrow> string \<Rightarrow> string \<Rightarrow> AchievoContract \<Rightarrow> unit outcome" where
  "update_certificate_status e certificate_id' new_status s = non_payable e s
     (let caller = predecessorAccountId e in
      case certificates s certificate_id' of
        None \<Rightarrow> (Inl (NotFound ''Certificate not found''), s)
      | Some certificate \<Rightarrow>
          if issuer_org_id (metadata certificate) \<noteq> caller
          then (Inl (Unauthorized ''Unauthorized to update this certificate''), s)
          else
            let certificate' = certificate\<lparr>status := new_status, updated_at := now e 0\<rparr>;
                s1 = s\<lparr>certificates := (certificates s)(certificate_id' \<mapsto> certificate')\<rparr>;
                history = history_or_empty s1 certificate_id' @ [status_updated_log e new_status];
                s2 = s1\<lparr>certificate_history :=
                          (certificate_history s1)(certificate_id' \<mapsto> history)\<rparr>
            in (Inr ((), [Log (''Certificate '' @ certificate_id' @ '' status updated to: ''
                              @ new_status)]),
                s2))"

definition revoke_certificate ::
  "env \<Rightarrow> string \<Rightarrow> string \<Rightarrow> AchievoContract \<Rightarrow> unit outcome" where
  "revoke_certificate e certificate_id' reason' s = non_payable e s
     (let caller = predecessorAccountId e in
      case certificates s certificate_id' of
        None \<Rightarrow> (Inl (NotFound ''Certificate not found''), s)
      | Some certificate \<Rightarrow>
          if issuer_org_id (metadata certificate) \<noteq> caller
          then (Inl (Unauthorized ''Unauthorized to revoke this certificate''), s)
          else
            let certificate' = certificate\<lparr>status := ''revoked'', updated_at := now e 0\<rparr>;
                s1 = s\<lparr>certificates := (certificates s)(certificate_id' \<mapsto> certificate')\<rparr>;
                history = history_or_empty s1 certificate_id' @ [revoked_log e reason'];
                s2 = s1\<lparr>certificate_history :=
                          (certificate_history s1)(certificate_id' \<mapsto> history)\<rparr>
            in (Inr ((), [Log (''Certificate '' @ certificate_id' @ '' revoked. Reason: ''
                              @ reason')]),
                s2))"

text \<open>
  \<open>validate_certificate\<close> returns \<open>null\<close> (\<open>Inr None\<close>) for an unknown id and throws for a
  revoked certificate.
\<close>

definition validate_certificate ::
  "AchievoContract \<Rightarrow> string \<Rightarrow> error + CertificateMetadata option" where
  "validate_certificate s certificate_id' =
     (case certificates s certificate_id' of
        None \<Rightarrow> Inr None
      | Some certificate \<Rightarrow>
          if status certificate = ''revoked''
          then Inl (Revoked ''Certificate has been revoked'')
          else Inr (Some (metadata certificate)))"

definition get_certificate_history :: "AchievoContract \<Rightarrow> string \<Rightarrow> UpdateLog list" where
  "get_certificate_history s certificate_id' =
     (case certificate_history s certificate_id' of None \<Rightarrow> [] | Some history \<Rightarrow> history)"

definition get_certificate :: "AchievoContract \<Rightarrow> string \<Rightarrow> Certificate option" where
  "get_certificate s certificate_id' = certificates s certificate_id'"

definition get_individual :: "AchievoContract \<Rightarrow> string \<Rightarrow> Individual option" where
  "get_individual s account_id = individuals s account_id"

definition get_organization :: "AchievoContract \<Rightarrow> string \<Rightarrow> Organization option" where
  "get_organization s account_id = organizations s account_id"

subsection \<open>Rewards\<close>

text \<open>The record \<open>grant_reward\<close> builds: the amount is the literal \<open>"100"\<close>.\<close>

definition new_reward :: "env \<Rightarrow> string \<Rightarrow> string \<Rightarrow> string \<Rightarrow> Reward" where
  "new_reward e reward_id' learner_id' milestone' =
     \<lparr>reward_id = reward_id', reward_learner_id = learner_id', milestone = milestone',
      amount = ''100'', granted_at = now e 0\<rparr>"

definition grant_reward ::
  "env \<Rightarrow> string \<Rightarrow> string \<Rightarrow> AchievoContract \<Rightarrow> string outcome" where
  "grant_reward e learner_id' milestone' s = non_payable e s
     (if individuals s learner_id' = None
      then (Inl (NotFound ''Learner not found''), s)
      else
        let s1 = s\<lparr>reward_counter := js_increment (reward_counter s)\<rparr>;
            reward_id' = reward_key (reward_counter s1);
            reward = new_reward e reward_id' learner_id' milestone';
            s2 = s1\<lparr>rewards := (rewards s1)(reward_id' \<mapsto> reward)\<rparr>
        in (Inr (reward_id',
                 [Log (''Reward granted: '' @ reward_id' @ '' to '' @ learner_id' @ '' for ''
                       @ milestone')]),
            s2))"

text \<open>
  The loop of \<open>list_rewards\<close>: \<open>i\<close> starts at 1, \<open>acc\<close> is the array \<open>rewards\<close> that the
  loop pushes onto, and \<open>i++\<close> is the increment of a number. The loop need not end: with
  the reward counter at \<open>2 ^ 53\<close>, \<open>i\<close> stays at \<open>2 ^ 53\<close> and the test \<open>i <= counter\<close>
  stays true. \<open>None\<close> is a call that does not return.
\<close>

partial_function (option) list_rewards_loop ::
  "AchievoContract \<Rightarrow> string \<Rightarrow> nat \<Rightarrow> Reward list \<Rightarrow> Reward list option" where
  "list_rewards_loop s learner_id' i acc =
     (if i \<le> reward_counter s
      then list_rewards_loop s learner_id' (js_increment i)
             (case rewards s (reward_key i) of
                None \<Rightarrow> acc
              | Some reward \<Rightarrow>
                  if reward_learner_id reward = learner_id' then acc @ [reward] else acc)
      else Some acc)"

definition list_rewards :: "AchievoContract \<Rightarrow> string \<Rightarrow> Reward list option" where
  "list_rewards s learner_id' = list_rewards_loop s learner_id' 1 []"

subsection \<open>Payments\<close>

text \<open>\<open>process_payment\<close> is payable: no test of the deposit stands before its body.\<close>

definition process_payment ::
  "env \<Rightarrow> string \<Rightarrow> string \<Rightarrow> AchievoContract \<Rightarrow> unit outcome" where
  "process_payment e recipient_id amount' s =
     (let sender = predecessorAccountId e;
          attached_deposit = int (attachedDeposit e)
      in case BigInt e amount' of
           None \<Rightarrow> (Inl SyntaxError, s)
         | Some payment_amount \<Rightarrow>
             if attached_deposit < payment_amount
             then (Inl (InsufficientFunds ''Insufficient attached deposit''), s)
             else if individuals s recipient_id = None \<and> organizations s recipient_id = None
             then (Inl (NotFound ''Recipient not found''), s)
             else (Inr ((), [Transfer recipient_id payment_amount,
                             Log (''Payment processed: '' @ sender @ '' -> '' @ recipient_id
                                  @ '', amount: '' @ amount')]),
                   s))"

subsection \<open>Calls and runs of the contract\<close>

text \<open>
  The host runs one \<open>@call\<close> method at a time, each with its own caller, deposit and
  clock. \<open>step\<close> is the state one call leaves behind and \<open>run\<close> the state after a list
  of calls; a call that throws leaves the state as it found it, and the run goes on.
\<close>

datatype call =
    Register_individual string string string
  | Register_organization string string
  | Verify_organization string
  | Issue_certificate string string CertificateMetadata
  | Update_certificate_status string string
  | Revoke_certificate string string
  | Grant_reward string string
  | Process_payment string string

fun step :: "env \<Rightarrow> call \<Rightarrow> AchievoContract \<Rightarrow> AchievoContract" where
  "step e (Register_individual name' dob' email') s =
     snd (register_individual e name' dob' email' s)"
| "step e (Register_organization name' contact_info') s =
     snd (register_organization e name' contact_info' s)"
| "step e (Verify_organization organization_id') s =
     snd (verify_organization e organization_id' s)"
| "step e (Issue_certificate learner_id' course_id' metadata') s =
     snd (issue_certificate e learner_id' course_id' metadata' s)"
| "step e (Update_certificate_status certificate_id' new_status) s =
     snd (update_certificate_status e certificate_id' new_status s)"
| "step e (Revoke_certificate certificate_id' reason') s =
     snd (revoke_certificate e certificate_id' reason' s)"
| "step e (Grant_reward learner_id' milestone') s =
     snd (grant_reward e learner_id' milestone' s)"
| "step e (Process_payment recipient_id amount') s =
     snd (process_payment e recipient_id amount' s)"

fun is_issue :: "call \<Rightarrow> bool" where
  "is_issue (Issue_certificate learner_id' course_id' metadata') = True"
| "is_issue c = False"

fun run :: "(env \<times> call) list \<Rightarrow> AchievoContract \<Rightarrow> AchievoContract" where
  "run [] s = s"
| "run ((e, c) # cs) s = run cs (step e c s)"

definition succeeded :: "'a outcome \<Rightarrow> bool" where
  "succeeded out = (case fst out of Inl err \<Rightarrow> False | Inr v \<Rightarrow> True)"

text \<open>What one call of a run contributes to what the claims count.\<close>

text \<open>The certificate id a call returns, when it is an \<open>issue_certificate\<close> that returns.\<close>

fun issued_by :: "env \<Rightarrow> call \<Rightarrow> AchievoContract \<Rightarrow> string list" where
  "issued_by e (Issue_certificate learner_id' course_id' metadata') s =
     (case fst (issue_certificate e learner_id' course_id' metadata' s) of
        Inl err \<Rightarrow> []
      | Inr (certificate_id', fx) \<Rightarrow> [certificate_id'])"
| "issued_by e c s = []"

text \<open>
  The reward a call grants to the learner \<open>l\<close>, when it is a \<open>grant_reward\<close> for \<open>l\<close>
  that returns.
\<close>

fun granted_by :: "string \<Rightarrow> env \<Rightarrow> call \<Rightarrow> AchievoContract \<Rightarrow> Reward list" where
  "granted_by l e (Grant_reward learner_id' milestone') s =
     (case fst (grant_reward e learner_id' milestone' s) of
        Inl err \<Rightarrow> []
      | Inr (reward_id', fx) \<Rightarrow>
          if learner_id' = l then [new_reward e reward_id' learner_id' milestone'] else [])"
| "granted_by l e c s = []"

text \<open>
  The history entry of a call that mutates the certificate \<open>cid\<close>: an
  \<open>update_certificate_status\<close> or a \<open>revoke_certificate\<close> on \<open>cid\<close> that returns.
\<close>

fun appended_by :: "string \<Rightarrow> env \<Rightarrow> call \<Rightarrow> AchievoContract \<Rightarrow> UpdateLog list" where
  "appended_by cid e (Update_certificate_status certificate_id' new_status) s =
     (if certificate_id' = cid \<and> succeeded (update_certificate_status e certificate_id' new_status s)
      then [status_updated_log e new_status] else [])"
| "appended_by cid e (Revoke_certificate certificate_id' reason') s =
     (if certificate_id' = cid \<and> succeeded (revoke_certificate e certificate_id' reason' s)
      then [revoked_log e reason'] else [])"
| "appended_by cid e c s = []"

fun mutates :: "string \<Rightarrow> env \<Rightarrow> call \<Rightarrow> AchievoContract \<Rightarrow> bool" where
  "mutates cid e (Update_certificate_status certificate_id' new_status) s =
     (certificate_id' = cid \<and> succeeded (update_certificate_status e certificate_id' new_status s))"
| "mutates cid e (Revoke_certificate certificate_id' reason') s =
     (certificate_id' = cid \<and> succeeded (revoke_certificate e certificate_id' reason' s))"
| "mutates cid e c s = False"

text \<open>The same along a run, in call order.\<close>

fun issued_ids :: "(env \<times> call) list \<Rightarrow> AchievoContract \<Rightarrow> string list" where
  "issued_ids [] s = []"
| "issued_ids ((e, c) # cs) s = issued_by e c s @ issued_ids cs (step e c s)"

fun rewards_granted :: "string \<Rightarrow> (env \<times> call) list \<Rightarrow> AchievoContract \<Rightarrow> Reward list" where
  "rewards_granted l [] s = []"
| "rewards_granted l ((e, c) # cs) s = granted_by l e c s @ rewards_granted l cs (step e c s)"

fun history_appended :: "string \<Rightarrow> (env \<times> call) list \<Rightarrow> AchievoContract \<Rightarrow> UpdateLog list" where
  "history_appended cid [] s = []"
| "history_appended cid ((e, c) # cs) s =
     appended_by cid e c s @ history_appended cid cs (step e c s)"

fun successful_mutations :: "string \<Rightarrow> (env \<times> call) list \<Rightarrow> AchievoContract \<Rightarrow> nat" where
  "successful_mutations cid [] s = 0"
| "successful_mutations cid ((e, c) # cs) s =
     (if mutates cid e c s then 1 else 0) + successful_mutations cid cs (step e c s)"

subsection \<open>A concrete run\<close>

text \<open>
  The scenario of the specification: \<open>alice\<close> registers as an individual, \<open>school\<close> as an
  organization, \<open>school\<close> is verified, and issues a certificate to \<open>alice\<close>.

  \<open>decimal\<close> stands for \<open>BigInt\<close> in the scenario. It reads a string of decimal digits
  as the built-in does (the empty string is 0) and answers \<open>None\<close> on every other string;
  the built-in accepts some of those (signs, white space, radix prefixes), so \<open>decimal\<close>
  is the built-in on digit strings only.
\<close>

definition digit_value :: "char \<Rightarrow> nat" where
  "digit_value c = of_char c - 48"

definition is_digit :: "char \<Rightarrow> bool" where
  "is_digit c = (48 \<le> (of_char c :: nat) \<and> (of_char c :: nat) \<le> 57)"

definition nat_of_string :: "string \<Rightarrow> nat" where
  "nat_of_string cs = foldl (\<lambda>a c. 10 * a + digit_value c) 0 cs"

definition decimal :: "string \<Rightarrow> int option" where
  "decimal a = (if list_all is_digit a then Some (int (nat_of_string a)) else None)"

definition host :: "string \<Rightarrow> nat \<Rightarrow> env" where
  "host caller deposit = \<lparr>predecessorAccountId = caller, attachedDeposit = deposit,
     now = (\<lambda>k. ''2024-01-15T00:00:00.000Z''), BigInt = decimal\<rparr>"

definition payload :: CertificateMetadata where
  "payload = \<lparr>learner_id = ''mallory'', course_id = ''other'',
     course_name = ''Blockchain Fundamentals'', completion_date = ''2024-01-15'',
     issuer_org_id = ''nobody'', skills = [''blockchain'', ''cryptocurrency''],
     grade = Some ''A''\<rparr>"

definition onboarding :: "(env \<times> call) list" where
  "onboarding =
     [(host ''alice'' 0, Register_individual ''Alice'' ''1990-01-01'' ''alice@example.com''),
      (host ''school'' 0, Register_organization ''School'' ''school@example.com''),
      (host ''carol'' 0, Verify_organization ''school'')]"

definition registered :: AchievoContract where
  "registered = run (take 2 onboarding) init"

definition verified_school :: AchievoContract where
  "verified_school = run onboarding init"

definition issued :: AchievoContract where
  "issued = step (host ''school'' 0) (Issue_certificate ''alice'' ''course1'' payload)
              verified_school"

text \<open>
  The certificate is completed by its issuer, \<open>mallory\<close> (no issuer) tries to revoke it,
  then its issuer revokes it.
\<close>

definition lifecycle :: "(env \<times> call) list" where
  "lifecycle =
     [(host ''school'' 0, Update_certificate_status ''cert_1'' ''completed''),
      (host ''mallory'' 0, Revoke_certificate ''cert_1'' ''spite''),
      (host ''school'' 0, Revoke_certificate ''cert_1'' ''fraud'')]"

definition revoked :: AchievoContract where
  "revoked = run lifecycle issued"

text \<open>
  \<open>mallory\<close>, who is registered as nothing, grants \<open>alice\<close> a reward, tries to grant one
  to the unregistered \<open>bob\<close>, and \<open>school\<close> grants \<open>alice\<close> a second one.
\<close>

definition granting :: "(env \<times> call) list" where
  "granting =
     [(host ''mallory'' 0, Grant_reward ''alice'' ''first course''),
      (host ''mallory'' 0, Grant_reward ''bob'' ''first course''),
      (host ''school'' 0, Grant_reward ''alice'' ''second course'')]"

definition rewarded :: AchievoContract where
  "rewarded = run (onboarding @ granting) init"

text \<open>
  Two states with a counter one below \<open>2 ^ 53\<close>, the largest value a counter takes:
  \<open>verified_school\<close> after \<open>2 ^ 53 - 1\<close> certificates, and after as many rewards.
\<close>

definition last_certificate :: AchievoContract where
  "last_certificate = verified_school\<lparr>certificate_counter := 2 ^ 53 - 1\<rparr>"

definition last_reward :: AchievoContract where
  "last_reward = verified_school\<lparr>reward_counter := 2 ^ 53 - 1\<rparr>"

subsection \<open>Notions the proofs use\<close>

text \<open>What the \<open>i\<close>-th turn of the loop of \<open>list_rewards\<close> pushes.\<close>

definition reward_at :: "AchievoContract \<Rightarrow> string \<Rightarrow> nat \<Rightarrow> Reward list" where
  "reward_at s l i =
     (case rewards s (reward_key i) of
        None \<Rightarrow> []
      | Some reward \<Rightarrow> if reward_learner_id reward = l then [reward] else [])"

text \<open>What all the turns of the loop push, when it runs from 1 to the reward counter.\<close>

definition stored_for :: "AchievoContract \<Rightarrow> string \<Rightarrow> Reward list" where
  "stored_for s l = concat (map (reward_at s l) [1..<Suc (reward_counter s)])"

text \<open>Every stored reward sits under its own id and has the amount \<open>"100"\<close>.\<close>

definition rewards_ok :: "AchievoContract \<Rightarrow> bool" where
  "rewards_ok s \<longleftrightarrow>
     (\<forall>rid reward. rewards s rid = Some reward \<longrightarrow>
        reward_id reward = rid \<and> amount reward = ''100'')"

text \<open>
  The certificate numbered \<open>k\<close> exists, was issued by \<open>org\<close>, and the counter has passed
  \<open>k\<close>.
\<close>

definition bound_to :: "string \<Rightarrow> nat \<Rightarrow> AchievoContract \<Rightarrow> bool" where
  "bound_to org k s \<longleftrightarrow>
     k \<le> certificate_counter s \<and>
     (\<exists>certificate. certificates s (cert_key k) = Some certificate
        \<and> issuer_org_id (metadata certificate) = org)"

section \<open>Lemmas about the model\<close>

lemmas call_defs =
  non_payable_def
  register_individual_def register_organization_def verify_organization_def
  issue_certificate_def update_certificate_status_def revoke_certificate_def
  grant_reward_def process_payment_def

lemma run_append: "run (cs @ ds) s = run ds (run cs s)"
  by (induction cs arbitrary: s) auto

lemma step_verified:
  assumes "organizations s oid = Some org" and "verified org"
  shows "\<exists>org'. organizations (step e c s) oid = Some org' \<and> verified org'"
  using assms by (cases c) (auto simp: call_defs Let_def split: option.splits)

lemma run_verified:
  assumes "organizations s oid = Some org" and "verified org"
  shows "\<exists>org'. organizations (run cs s) oid = Some org' \<and> verified org'"
  using assms
proof (induction cs arbitrary: s org)
  case Nil
  then show ?case by simp
next
  case (Cons a cs)
  obtain e c where a: "a = (e, c)" by (cases a)
  from step_verified [OF Cons.prems, of e c]
  obtain org' where "organizations (step e c s) oid = Some org'" and "verified org'"
    by blast
  from Cons.IH [OF this] show ?case by (simp add: a)
qed

subsection \<open>Keys\<close>

lemma digit_value_digit: "d < 10 \<Longrightarrow> digit_value (digit d) = d"
  by (simp add: digit_value_def digit_def)

lemma nat_of_string_snoc: "nat_of_string (cs @ [c]) = 10 * nat_of_string cs + digit_value c"
  by (simp add: nat_of_string_def)

lemma nat_of_string_of_nat: "nat_of_string (string_of_nat n) = n"
proof (induction n rule: string_of_nat.induct)
  case (1 n)
  show ?case
  proof (cases "n < 10")
    case True
    then show ?thesis
      by (simp add: string_of_nat.simps [of n] nat_of_string_def digit_value_digit)
  next
    case False
    with "1" show ?thesis
      by (simp add: string_of_nat.simps [of n] nat_of_string_snoc digit_value_digit)
  qed
qed

lemma string_of_nat_inj: "string_of_nat m = string_of_nat n \<longleftrightarrow> m = n"
  by (metis nat_of_string_of_nat)

lemma cert_key_inj [simp]: "cert_key m = cert_key n \<longleftrightarrow> m = n"
  by (simp add: cert_key_def string_of_nat_inj)

lemma reward_key_inj [simp]: "reward_key m = reward_key n \<longleftrightarrow> m = n"
  by (simp add: reward_key_def string_of_nat_inj)

subsection \<open>The counters\<close>

lemma js_increment_Suc: "n < 2 ^ 53 \<Longrightarrow> js_increment n = Suc n"
  by (simp add: js_increment_def)

lemma js_increment_ge: "n \<le> js_increment n"
  by (simp add: js_increment_def)

lemma js_increment_below: "js_increment n < 2 ^ 53 \<Longrightarrow> js_increment n = Suc n"
  by (simp add: js_increment_def split: if_splits)

lemma certificate_counter_step: "certificate_counter s \<le> certificate_counter (step e c s)"
  by (cases c) (auto simp: call_defs Let_def js_increment_ge split: option.splits)

lemma certificate_counter_run: "certificate_counter s \<le> certificate_counter (run cs s)"
proof (induction cs arbitrary: s)
  case Nil
  show ?case by simp
next
  case (Cons a cs)
  obtain e c where a: "a = (e, c)" by (cases a)
  have "certificate_counter s \<le> certificate_counter (step e c s)"
    by (rule certificate_counter_step)
  also have "\<dots> \<le> certificate_counter (run cs (step e c s))"
    by (rule Cons.IH)
  finally show ?case by (simp add: a)
qed

lemma reward_counter_step: "reward_counter s \<le> reward_counter (step e c s)"
  by (cases c) (auto simp: call_defs Let_def js_increment_ge split: option.splits)

lemma reward_counter_run: "reward_counter s \<le> reward_counter (run cs s)"
proof (induction cs arbitrary: s)
  case Nil
  show ?case by simp
next
  case (Cons a cs)
  obtain e c where a: "a = (e, c)" by (cases a)
  have "reward_counter s \<le> reward_counter (step e c s)"
    by (rule reward_counter_step)
  also have "\<dots> \<le> reward_counter (run cs (step e c s))"
    by (rule Cons.IH)
  finally show ?case by (simp add: a)
qed

subsection \<open>Issued ids\<close>

lemma issued_by_step:
  assumes "certificate_counter (step e c s) < 2 ^ 53"
  shows "issued_by e c s =
     map cert_key [Suc (certificate_counter s)..<Suc (certificate_counter (step e c s))]"
  using assms
  by (cases c) (auto simp: call_defs Let_def js_increment_def split: option.splits if_splits)

lemma upt_split: "i \<le> j \<Longrightarrow> j \<le> k \<Longrightarrow> [i..<j] @ [j..<k] = [i..<k]"
  by (metis le_Suc_ex upt_add_eq_append)

lemma issued_ids_run:
  assumes "certificate_counter (run cs s) < 2 ^ 53"
  shows "issued_ids cs s =
     map cert_key [Suc (certificate_counter s)..<Suc (certificate_counter (run cs s))]"
  using assms
proof (induction cs arbitrary: s)
  case Nil
  show ?case by simp
next
  case (Cons a cs)
  obtain e c where a: "a = (e, c)" by (cases a)
  let ?t = "step e c s"
  from Cons.prems have below: "certificate_counter (run cs ?t) < 2 ^ 53"
    by (simp add: a)
  have le1: "Suc (certificate_counter s) \<le> Suc (certificate_counter ?t)"
    by (simp add: certificate_counter_step)
  have le2: "Suc (certificate_counter ?t) \<le> Suc (certificate_counter (run cs ?t))"
    using certificate_counter_run [of ?t cs] by simp
  from le2 below have "certificate_counter ?t < 2 ^ 53"
    by simp
  then have first: "issued_by e c s =
      map cert_key [Suc (certificate_counter s)..<Suc (certificate_counter ?t)]"
    by (rule issued_by_step)
  have "issued_ids (a # cs) s = issued_by e c s @ issued_ids cs ?t"
    by (simp add: a)
  also have "\<dots> = map cert_key ([Suc (certificate_counter s)..<Suc (certificate_counter ?t)]
                 @ [Suc (certificate_counter ?t)..<Suc (certificate_counter (run cs ?t))])"
    by (simp add: first Cons.IH [OF below])
  also have "\<dots> = map cert_key [Suc (certificate_counter s)..<Suc (certificate_counter (run cs ?t))]"
    by (simp only: upt_split [OF le1 le2])
  finally show ?case by (simp add: a)
qed

subsection \<open>The loop of \<open>list_rewards\<close>\<close>

lemma list_rewards_loop_eq:
  assumes "reward_counter s < 2 ^ 53"
  shows "list_rewards_loop s l i acc =
           Some (acc @ concat (map (reward_at s l) [i..<Suc (reward_counter s)]))"
proof (induction "Suc (reward_counter s) - i" arbitrary: i acc)
  case 0
  then have "\<not> i \<le> reward_counter s"
    by simp
  then show ?case
    by (subst list_rewards_loop.simps) simp
next
  case (Suc d)
  let ?acc = "case rewards s (reward_key i) of
                None \<Rightarrow> acc
              | Some reward \<Rightarrow> if reward_learner_id reward = l then acc @ [reward] else acc"
  from Suc.hyps(2) have le: "i \<le> reward_counter s"
    by simp
  with assms have next_i: "js_increment i = Suc i"
    by (simp add: js_increment_def)
  have acc: "?acc = acc @ reward_at s l i"
    by (simp add: reward_at_def split: option.splits)
  have d: "d = Suc (reward_counter s) - Suc i"
    using Suc.hyps(2) by simp
  have "list_rewards_loop s l i acc = list_rewards_loop s l (Suc i) ?acc"
    using le by (subst list_rewards_loop.simps) (simp add: next_i)
  also have "\<dots> = Some (?acc @ concat (map (reward_at s l) [Suc i..<Suc (reward_counter s)]))"
    by (rule Suc.hyps(1) [OF d])
  also have "?acc @ concat (map (reward_at s l) [Suc i..<Suc (reward_counter s)]) =
      acc @ concat (map (reward_at s l) (i # [Suc i..<Suc (reward_counter s)]))"
    by (simp only: acc) simp
  also have "i # [Suc i..<Suc (reward_counter s)] = [i..<Suc (reward_counter s)]"
    using le by (simp add: upt_conv_Cons del: upt_Suc)
  finally show ?case .
qed

lemma list_rewards_eq:
  "reward_counter s < 2 ^ 53 \<Longrightarrow> list_rewards s l = Some (stored_for s l)"
  by (simp add: list_rewards_def stored_for_def list_rewards_loop_eq)

text \<open>With the counter at \<open>2 ^ 53\<close> the loop does not end.\<close>

lemma list_rewards_loop_returns:
  assumes "list_rewards_loop s l i acc = Some y"
  shows "2 ^ 53 \<le> reward_counter s \<longrightarrow> reward_counter s < i"
proof (rule list_rewards_loop.raw_induct
    [where P = "\<lambda>s l i acc y. 2 ^ 53 \<le> reward_counter s \<longrightarrow> reward_counter s < i", OF _ assms])
  fix loop :: "AchievoContract \<Rightarrow> string \<Rightarrow> nat \<Rightarrow> Reward list \<Rightarrow> Reward list option"
  fix s l i acc y
  assume IH: "\<And>s' l' i' acc' y'. loop s' l' i' acc' = Some y' \<Longrightarrow>
      2 ^ 53 \<le> reward_counter s' \<longrightarrow> reward_counter s' < i'"
  assume body: "(if i \<le> reward_counter s
      then loop s l (js_increment i)
             (case rewards s (reward_key i) of
                None \<Rightarrow> acc
              | Some reward \<Rightarrow>
                  if reward_learner_id reward = l then acc @ [reward] else acc)
      else Some acc) = Some y"
  show "2 ^ 53 \<le> reward_counter s \<longrightarrow> reward_counter s < i"
  proof (cases "i \<le> reward_counter s")
    case True
    with body obtain acc' where "loop s l (js_increment i) acc' = Some y"
      by simp
    from IH [OF this]
    have "2 ^ 53 \<le> reward_counter s \<longrightarrow> reward_counter s < js_increment i" .
    with True show ?thesis
      by (simp add: js_increment_def split: if_splits)
  next
    case False
    then show ?thesis by simp
  qed
qed

lemma list_rewards_stuck:
  assumes "2 ^ 53 \<le> reward_counter s"
  shows "list_rewards s l = None"
proof (cases "list_rewards s l")
  case None
  then show ?thesis .
next
  case (Some y)
  then have "list_rewards_loop s l 1 [] = Some y"
    by (simp add: list_rewards_def)
  from list_rewards_loop_returns [OF this] assms show ?thesis
    by simp
qed

subsection \<open>Rewards along a run\<close>

lemma stored_for_cong:
  assumes "rewards t = rewards s" and "reward_counter t = reward_counter s"
  shows "stored_for t l = stored_for s l"
proof -
  have "reward_at t l = reward_at s l"
    by (rule ext) (simp add: reward_at_def assms)
  then show ?thesis by (simp add: stored_for_def assms)
qed

lemma stored_for_grant:
  assumes "grant_reward e l' m s = (Inr (rid, fx), t)" and "reward_counter t < 2 ^ 53"
  shows "stored_for t l = stored_for s l @ (if l' = l then [new_reward e rid l' m] else [])"
proof -
  let ?n = "reward_counter s"
  from assms have t: "reward_counter t = Suc ?n"
    "rewards t = (rewards s)(reward_key (Suc ?n) \<mapsto> new_reward e rid l' m)"
    by (auto simp: grant_reward_def non_payable_def Let_def js_increment_def split: if_splits)
  have old: "reward_at t l k = reward_at s l k" if "k \<le> ?n" for k
    using that by (simp add: reward_at_def t)
  have new: "reward_at t l (Suc ?n) = (if l' = l then [new_reward e rid l' m] else [])"
    by (simp add: reward_at_def t new_reward_def)
  have "stored_for t l = concat (map (reward_at t l) ([1..<Suc ?n] @ [Suc ?n]))"
    by (simp add: stored_for_def t)
  also have "\<dots> = concat (map (reward_at t l) [1..<Suc ?n]) @ reward_at t l (Suc ?n)"
    by simp
  also have "map (reward_at t l) [1..<Suc ?n] = map (reward_at s l) [1..<Suc ?n]"
    by (rule map_cong [OF refl]) (simp add: old del: upt_Suc)
  finally show ?thesis by (simp add: stored_for_def new)
qed

lemma stored_for_step:
  assumes "reward_counter (step e c s) < 2 ^ 53"
  shows "stored_for (step e c s) l = stored_for s l @ granted_by l e c s"
proof (cases c)
  case (Grant_reward l' m)
  show ?thesis
  proof (cases "fst (grant_reward e l' m s)")
    case (Inl err)
    then have "snd (grant_reward e l' m s) = s"
      by (auto simp: grant_reward_def non_payable_def Let_def split: if_splits)
    with Inl show ?thesis by (simp add: Grant_reward)
  next
    case (Inr v)
    obtain rid fx where v: "v = (rid, fx)" by (cases v)
    have "grant_reward e l' m s = (Inr (rid, fx), step e c s)"
      using Inr by (simp add: Grant_reward v prod_eq_iff)
    from stored_for_grant [OF this assms, of l] show ?thesis
      using Inr by (simp add: Grant_reward v)
  qed
qed (auto intro!: stored_for_cong simp: call_defs Let_def split: option.splits)

lemma stored_for_run:
  assumes "reward_counter (run cs s) < 2 ^ 53"
  shows "stored_for (run cs s) l = stored_for s l @ rewards_granted l cs s"
  using assms
proof (induction cs arbitrary: s)
  case Nil
  show ?case by simp
next
  case (Cons a cs)
  obtain e c where a: "a = (e, c)" by (cases a)
  from Cons.prems have below: "reward_counter (run cs (step e c s)) < 2 ^ 53"
    by (simp add: a)
  with reward_counter_run [of "step e c s" cs] have "reward_counter (step e c s) < 2 ^ 53"
    by simp
  then have "stored_for (step e c s) l = stored_for s l @ granted_by l e c s"
    by (rule stored_for_step)
  with Cons.IH [OF below] show ?case by (simp add: a)
qed

lemma stored_for_init: "stored_for init l = []"
  by (simp add: stored_for_def init_def)

lemma rewards_ok_init: "rewards_ok init"
  by (simp add: rewards_ok_def init_def)

lemma rewards_ok_step: "rewards_ok s \<Longrightarrow> rewards_ok (step e c s)"
  by (cases c) (auto simp: rewards_ok_def call_defs new_reward_def Let_def split: option.splits)

lemma rewards_ok_run: "rewards_ok s \<Longrightarrow> rewards_ok (run cs s)"
proof (induction cs arbitrary: s)
  case Nil
  then show ?case by simp
next
  case (Cons a cs)
  obtain e c where a: "a = (e, c)" by (cases a)
  show ?case using Cons.prems by (simp add: a Cons.IH rewards_ok_step)
qed

lemma stored_for_ids:
  assumes "rewards_ok s"
  shows "map reward_id (stored_for s l) =
           map reward_key (filter (\<lambda>k. reward_at s l k \<noteq> []) [1..<Suc (reward_counter s)])"
proof -
  have "map reward_id (concat (map (reward_at s l) ks)) =
          map reward_key (filter (\<lambda>k. reward_at s l k \<noteq> []) ks)" for ks
  proof (induction ks)
    case Nil
    show ?case by simp
  next
    case (Cons k ks)
    have "map reward_id (reward_at s l k) = (if reward_at s l k \<noteq> [] then [reward_key k] else [])"
      using assms by (auto simp: reward_at_def rewards_ok_def split: option.splits)
    with Cons show ?case by simp
  qed
  then show ?thesis by (simp add: stored_for_def)
qed

subsection \<open>The history of one certificate\<close>

text \<open>
  A certificate numbered below \<open>2 ^ 53\<close> is never written by a later \<open>issue_certificate\<close>;
  the certificate numbered \<open>2 ^ 53\<close> is, by every later one.
\<close>

lemma bound_to_step:
  assumes "bound_to org k s" and "k < 2 ^ 53 \<or> \<not> is_issue c"
  shows "bound_to org k (step e c s)"
  using assms
  by (cases c)
     (auto simp: bound_to_def call_defs Let_def js_increment_def split: option.splits)

lemma bound_to_run:
  assumes "bound_to org k s" and "k < 2 ^ 53 \<or> (\<forall>(e, c) \<in> set cs. \<not> is_issue c)"
  shows "bound_to org k (run cs s)"
  using assms
proof (induction cs arbitrary: s)
  case Nil
  then show ?case by simp
next
  case (Cons a cs)
  obtain e c where a: "a = (e, c)" by (cases a)
  from Cons.prems have "bound_to org k (step e c s)"
    by (intro bound_to_step) (auto simp: a)
  moreover from Cons.prems(2) have "k < 2 ^ 53 \<or> (\<forall>(e, c) \<in> set cs. \<not> is_issue c)"
    by auto
  ultimately show ?case using Cons.IH by (simp add: a)
qed

lemma history_step:
  assumes "bound_to org k s" and "k < 2 ^ 53 \<or> \<not> is_issue c"
  shows "get_certificate_history (step e c s) (cert_key k) =
           get_certificate_history s (cert_key k) @ appended_by (cert_key k) e c s"
  using assms
  by (cases c)
     (auto simp: bound_to_def call_defs get_certificate_history_def history_or_empty_def
        succeeded_def Let_def js_increment_def split: option.splits)

lemma history_run:
  assumes "bound_to org k s" and "k < 2 ^ 53 \<or> (\<forall>(e, c) \<in> set cs. \<not> is_issue c)"
  shows "get_certificate_history (run cs s) (cert_key k) =
           get_certificate_history s (cert_key k) @ history_appended (cert_key k) cs s"
  using assms
proof (induction cs arbitrary: s)
  case Nil
  show ?case by simp
next
  case (Cons a cs)
  obtain e c where a: "a = (e, c)" by (cases a)
  from Cons.prems(2) have here: "k < 2 ^ 53 \<or> \<not> is_issue c"
    and later: "k < 2 ^ 53 \<or> (\<forall>(e, c) \<in> set cs. \<not> is_issue c)"
    by (auto simp: a)
  from Cons.prems(1) here have "bound_to org k (step e c s)"
    by (rule bound_to_step)
  from Cons.IH [OF this later] show ?case
    by (simp add: a history_step [OF Cons.prems(1) here])
qed

lemma length_appended_by:
  "length (appended_by cid e c s) = (if mutates cid e c s then 1 else 0)"
  by (cases c) auto

lemma length_history_appended:
  "length (history_appended cid cs s) = successful_mutations cid cs s"
proof (induction cs arbitrary: s)
  case Nil
  show ?case by simp
next
  case (Cons a cs)
  obtain e c where a: "a = (e, c)" by (cases a)
  show ?case by (simp add: a Cons.IH length_appended_by)
qed

lemma bound_to_issue:
  assumes "issue_certificate e0 l c md s = (Inr (cid, fx), s1)"
  shows "cid = cert_key (certificate_counter s1)"
    and "bound_to (predecessorAccountId e0) (certificate_counter s1) s1"
    and "get_certificate_history s1 cid = [initial_log e0]"
  using assms
  by (auto simp: issue_certificate_def non_payable_def bound_to_def get_certificate_history_def
      Let_def split: if_splits)

lemma not_payable:
  assumes "0 < attachedDeposit e"
  shows "register_individual e n d m s = (Inl (NotPayable ''Function is not payable''), s)"
    and "register_organization e n ci s = (Inl (NotPayable ''Function is not payable''), s)"
    and "verify_organization e oid s = (Inl (NotPayable ''Function is not payable''), s)"
    and "issue_certificate e l c md s = (Inl (NotPayable ''Function is not payable''), s)"
    and "update_certificate_status e cid st s = (Inl (NotPayable ''Function is not payable''), s)"
    and "revoke_certificate e cid r s = (Inl (NotPayable ''Function is not payable''), s)"
    and "grant_reward e l ms s = (Inl (NotPayable ''Function is not payable''), s)"
  using assms by (simp_all add: call_defs)

lemma non_issuer_update:
  assumes "bound_to org k s" and "predecessorAccountId e \<noteq> org" and "attachedDeposit e = 0"
  shows "update_certificate_status e (cert_key k) st s =
           (Inl (Unauthorized ''Unauthorized to update this certificate''), s)"
    and "revoke_certificate e (cert_key k) r s =
           (Inl (Unauthorized ''Unauthorized to revoke this certificate''), s)"
  using assms
  by (auto simp: bound_to_def update_certificate_status_def revoke_certificate_def
      non_payable_def Let_def)

lemma issuer_update:
  assumes "bound_to org k s" and "predecessorAccountId e = org" and "attachedDeposit e = 0"
  shows "succeeded (update_certificate_status e (cert_key k) st s)"
    and "get_certificate_history (snd (update_certificate_status e (cert_key k) st s)) (cert_key k)
           = get_certificate_history s (cert_key k) @ [status_updated_log e st]"
    and "succeeded (revoke_certificate e (cert_key k) r s)"
    and "get_certificate_history (snd (revoke_certificate e (cert_key k) r s)) (cert_key k)
           = get_certificate_history s (cert_key k) @ [revoked_log e r]"
  using assms
  by (auto simp: bound_to_def update_certificate_status_def revoke_certificate_def
      non_payable_def get_certificate_history_def history_or_empty_def succeeded_def Let_def
      split: option.splits)

subsection \<open>The concrete run, evaluated\<close>

lemma cert_key_Suc_0: "cert_key (Suc 0) = ''cert_1''"
  by code_simp

lemma cert_key_2: "cert_key 2 = ''cert_2''"
  by code_simp

lemma cert_key_1: "cert_key 1 = ''cert_1''"
  by code_simp

lemma cert_key_Suc_Suc_0: "cert_key (Suc (Suc 0)) = ''cert_2''"
  by code_simp

lemma reward_key_Suc_0: "reward_key (Suc 0) = ''reward_1''"
  by code_simp

lemma reward_key_2: "reward_key 2 = ''reward_2''"
  by code_simp

lemma registered_eq:
  "registered = init\<lparr>
     individuals := [''alice'' \<mapsto> \<lparr>individual_id = ''alice'', individual_name = ''Alice'',
        dob = ''1990-01-01'', email = ''alice@example.com'',
        individual_registered_at = ''2024-01-15T00:00:00.000Z''\<rparr>],
     organizations := [''school'' \<mapsto> \<lparr>organization_id = ''school'',
        organization_name = ''School'', contact_info = ''school@example.com'',
        verified = False, organization_registered_at = ''2024-01-15T00:00:00.000Z''\<rparr>]\<rparr>"
  by (simp add: registered_def onboarding_def host_def init_def call_defs Let_def)

lemma verified_school_eq:
  "verified_school = init\<lparr>
     individuals := [''alice'' \<mapsto> \<lparr>individual_id = ''alice'', individual_name = ''Alice'',
        dob = ''1990-01-01'', email = ''alice@example.com'',
        individual_registered_at = ''2024-01-15T00:00:00.000Z''\<rparr>],
     organizations := [''school'' \<mapsto> \<lparr>organization_id = ''school'',
        organization_name = ''School'', contact_info = ''school@example.com'',
        verified = True, organization_registered_at = ''2024-01-15T00:00:00.000Z''\<rparr>]\<rparr>"
  by (simp add: verified_school_def onboarding_def host_def init_def call_defs Let_def)

lemma issued_eq:
  "issued = verified_school\<lparr>
     certificate_counter := 1,
     certificates := [''cert_1'' \<mapsto> \<lparr>certificate_id = ''cert_1'',
        metadata = payload\<lparr>learner_id := ''alice'', course_id := ''course1'',
                           issuer_org_id := ''school''\<rparr>,
        status = ''pending'', issued_at = ''2024-01-15T00:00:00.000Z'',
        updated_at = ''2024-01-15T00:00:00.000Z''\<rparr>],
     certificate_history := [''cert_1'' \<mapsto> [initial_log (host ''school'' 0)]]\<rparr>"
  by (simp add: issued_def verified_school_eq host_def init_def issue_certificate_def
      non_payable_def js_increment_def cert_key_Suc_0 initial_log_def Let_def)

lemma issued_run:
  "issued = run (onboarding @ [(host ''school'' 0, Issue_certificate ''alice'' ''course1'' payload)]) init"
  by (simp add: issued_def verified_school_def run_append)

lemma revoked_eq:
  "revoked = issued\<lparr>
     certificates := [''cert_1'' \<mapsto> \<lparr>certificate_id = ''cert_1'',
        metadata = payload\<lparr>learner_id := ''alice'', course_id := ''course1'',
                           issuer_org_id := ''school''\<rparr>,
        status = ''revoked'', issued_at = ''2024-01-15T00:00:00.000Z'',
        updated_at = ''2024-01-15T00:00:00.000Z''\<rparr>],
     certificate_history := [''cert_1'' \<mapsto>
        [initial_log (host ''school'' 0),
         status_updated_log (host ''school'' 0) ''completed'',
         revoked_log (host ''school'' 0) ''fraud'']]\<rparr>"
  by (simp add: revoked_def lifecycle_def issued_eq verified_school_eq host_def init_def
      update_certificate_status_def revoke_certificate_def non_payable_def
      history_or_empty_def initial_log_def status_updated_log_def revoked_log_def payload_def
      Let_def)

lemma reward_key_Suc_Suc_0: "reward_key (Suc (Suc 0)) = ''reward_2''"
  by code_simp

lemma rewarded_run: "rewarded = run granting verified_school"
  by (simp add: rewarded_def run_append verified_school_def)

lemma rewarded_eq:
  "rewarded = verified_school\<lparr>
     reward_counter := 2,
     rewards := [''reward_1'' \<mapsto> new_reward (host ''mallory'' 0) ''reward_1'' ''alice'' ''first course'',
                 ''reward_2'' \<mapsto> new_reward (host ''school'' 0) ''reward_2'' ''alice'' ''second course'']\<rparr>"
  by (simp add: rewarded_run granting_def verified_school_eq host_def init_def grant_reward_def
      non_payable_def js_increment_def reward_key_Suc_0 reward_key_Suc_Suc_0 new_reward_def
      Let_def)

lemma issue_cert_1:
  "issue_certificate (host ''school'' 0) ''alice'' ''course1'' payload verified_school =
     (Inr (''cert_1'', [Log ''Certificate issued: cert_1 for alice'']), issued)"
  by (simp add: issued_def prod_eq_iff)
     (simp add: issue_certificate_def non_payable_def js_increment_def verified_school_eq
        init_def host_def cert_key_Suc_0 Let_def)

lemma decimal_25: "decimal ''25'' = Some 25"
  by (simp add: decimal_def is_digit_def nat_of_string_def digit_value_def)

lemma digit_simps:
  "digit 0 = CHR ''0''" "digit (Suc 0) = CHR ''1''" "digit 2 = CHR ''2''" "digit 3 = CHR ''3''"
  "digit 4 = CHR ''4''" "digit 5 = CHR ''5''" "digit 6 = CHR ''6''" "digit 7 = CHR ''7''"
  "digit 8 = CHR ''8''" "digit 9 = CHR ''9''"
  by code_simp+

lemma cert_key_max: "cert_key 9007199254740992 = ''cert_9007199254740992''"
  by (simp add: cert_key_def string_of_nat.simps digit_simps)

lemma reward_key_max: "reward_key 9007199254740992 = ''reward_9007199254740992''"
  by (simp add: reward_key_def string_of_nat.simps digit_simps)

lemma host_simps:
  "predecessorAccountId (host caller deposit) = caller"
  "attachedDeposit (host caller deposit) = deposit"
  "now (host caller deposit) k = ''2024-01-15T00:00:00.000Z''"
  "BigInt (host caller deposit) = decimal"
  by (simp_all add: host_def)

subsection \<open>The counters reach every value up to \<open>2 ^ 53\<close>\<close>

lemma counters_reached:
  assumes "n \<le> 2 ^ 53"
  shows "\<exists>cs. certificate_counter (run cs init) = n \<and> reward_counter (run cs init) = n
    \<and> individuals (run cs init) ''alice'' \<noteq> None
    \<and> map_option verified (organizations (run cs init) ''school'') = Some True"
  using assms
proof (induction n)
  case 0
  have "certificate_counter (run onboarding init) = 0 \<and> reward_counter (run onboarding init) = 0
    \<and> individuals (run onboarding init) ''alice'' \<noteq> None
    \<and> map_option verified (organizations (run onboarding init) ''school'') = Some True"
    unfolding verified_school_def [symmetric] by (simp add: verified_school_eq init_def)
  then show ?case by blast
next
  case (Suc n)
  then obtain cs where cs: "certificate_counter (run cs init) = n"
      "reward_counter (run cs init) = n"
      "individuals (run cs init) ''alice'' \<noteq> None"
      "map_option verified (organizations (run cs init) ''school'') = Some True"
    by auto
  let ?more = "[(host ''school'' 0, Issue_certificate ''alice'' ''course1'' payload),
                (host ''school'' 0, Grant_reward ''alice'' ''first course'')]"
  from Suc.prems have n: "n < 2 ^ 53"
    by simp
  have "certificate_counter (run (cs @ ?more) init) = Suc n
    \<and> reward_counter (run (cs @ ?more) init) = Suc n
    \<and> individuals (run (cs @ ?more) init) ''alice'' \<noteq> None
    \<and> map_option verified (organizations (run (cs @ ?more) init) ''school'') = Some True"
    using cs n
    by (auto simp: run_append issue_certificate_def grant_reward_def non_payable_def
        js_increment_def host_simps Let_def split: option.splits)
  then show ?case by blast
qed


text \<open>
  Once a counter is at \<open>2 ^ 53\<close>, every later id of its kind is the id handed out last,
  whatever else the state holds.
\<close>

lemma certificate_id_repeats:
  assumes "issue_certificate e l c md s = (Inr (cid, fx), s1)"
    and "certificate_counter s1 = 2 ^ 53"
    and "issue_certificate e' l' c' md' s1 = (Inr (cid', fx'), s2)"
  shows "cid' = cid"
  using assms
  by (auto simp: issue_certificate_def non_payable_def js_increment_def Let_def
      split: if_splits option.splits)

lemma reward_id_repeats:
  assumes "grant_reward e l m s = (Inr (rid, fx), s1)"
    and "reward_counter s1 = 2 ^ 53"
    and "grant_reward e' l' m' s1 = (Inr (rid', fx'), s2)"
  shows "rid' = rid \<and> list_rewards s2 l'' = None"
proof -
  from assms have "rid' = rid" and "reward_counter s2 = 2 ^ 53"
    by (auto simp: grant_reward_def non_payable_def js_increment_def Let_def split: if_splits)
  then show ?thesis
    by (simp add: list_rewards_stuck)
qed

section \<open>The claims\<close>

text \<open>
  C1, as the code has it. A call of \<open>issue_certificate\<close> with a deposit attached fails
  with NotPayable in every state. With no deposit attached it fails with Unauthorized
  unless the caller is a registered organization whose \<open>verified\<close> flag is true; for such
  a caller it fails with NotFound if the learner is not a registered individual; and
  otherwise it returns the id numbered by the incremented certificate counter, stores the
  certificate under that id with status \<open>pending\<close>, and the history of the new id is one
  entry whose action is \<open>issued\<close>. In a state that a run \<open>cs\<close> of calls reaches from the
  initial state with the counter below \<open>2 ^ 53\<close>, the ids issued along \<open>cs\<close> are exactly
  those numbered from 1 up to the counter and the new id is numbered one above it, so it
  is strictly greater than each of them. Ids are compared by their number, the \<open>n\<close> of
  \<open>cert_n\<close>.
\<close>

theorem issue_certificate_spec:
  "(0 < attachedDeposit e \<longrightarrow>
      issue_certificate e l c md s = (Inl (NotPayable ''Function is not payable''), s))
   \<and> (attachedDeposit e = 0
        \<and> \<not> (\<exists>org. organizations s (predecessorAccountId e) = Some org \<and> verified org) \<longrightarrow>
      issue_certificate e l c md s =
        (Inl (Unauthorized ''Only verified organizations can issue certificates''), s))
   \<and> (attachedDeposit e = 0
        \<and> (\<exists>org. organizations s (predecessorAccountId e) = Some org \<and> verified org)
        \<and> individuals s l = None \<longrightarrow>
      issue_certificate e l c md s = (Inl (NotFound ''Learner not found''), s))
   \<and> (attachedDeposit e = 0
        \<and> (\<exists>org. organizations s (predecessorAccountId e) = Some org \<and> verified org)
        \<and> individuals s l \<noteq> None \<longrightarrow>
      (\<exists>fx s' cert entry.
         issue_certificate e l c md s =
           (Inr (cert_key (js_increment (certificate_counter s)), fx), s')
         \<and> certificate_counter s' = js_increment (certificate_counter s)
         \<and> certificates s' (cert_key (js_increment (certificate_counter s))) = Some cert
         \<and> status cert = ''pending''
         \<and> get_certificate_history s' (cert_key (js_increment (certificate_counter s))) = [entry]
         \<and> action entry = ''issued''))
   \<and> (s = run cs init \<and> certificate_counter s < 2 ^ 53 \<longrightarrow>
        js_increment (certificate_counter s) = Suc (certificate_counter s)
        \<and> issued_ids cs init = map cert_key [1..<Suc (certificate_counter s)]
        \<and> (\<forall>k. cert_key k \<in> set (issued_ids cs init) \<longrightarrow>
              k < js_increment (certificate_counter s)))"
proof -
  have ids: "issued_ids cs init = map cert_key [1..<Suc (certificate_counter s)]"
    if "s = run cs init" and "certificate_counter s < 2 ^ 53"
    using issued_ids_run [of cs init] that by (simp add: init_def)
  have older: "s = run cs init \<and> certificate_counter s < 2 ^ 53 \<longrightarrow>
        js_increment (certificate_counter s) = Suc (certificate_counter s)
        \<and> issued_ids cs init = map cert_key [1..<Suc (certificate_counter s)]
        \<and> (\<forall>k. cert_key k \<in> set (issued_ids cs init) \<longrightarrow>
              k < js_increment (certificate_counter s))"
  proof (intro impI, elim conjE)
    assume s: "s = run cs init" and below: "certificate_counter s < 2 ^ 53"
    from below have inc: "js_increment (certificate_counter s) = Suc (certificate_counter s)"
      by (rule js_increment_Suc)
    from ids [OF s below] inc
    show "js_increment (certificate_counter s) = Suc (certificate_counter s)
        \<and> issued_ids cs init = map cert_key [1..<Suc (certificate_counter s)]
        \<and> (\<forall>k. cert_key k \<in> set (issued_ids cs init) \<longrightarrow>
              k < js_increment (certificate_counter s))"
      by auto
  qed
  have calls: "(0 < attachedDeposit e \<longrightarrow>
      issue_certificate e l c md s = (Inl (NotPayable ''Function is not payable''), s))
   \<and> (attachedDeposit e = 0
        \<and> \<not> (\<exists>org. organizations s (predecessorAccountId e) = Some org \<and> verified org) \<longrightarrow>
      issue_certificate e l c md s =
        (Inl (Unauthorized ''Only verified organizations can issue certificates''), s))
   \<and> (attachedDeposit e = 0
        \<and> (\<exists>org. organizations s (predecessorAccountId e) = Some org \<and> verified org)
        \<and> individuals s l = None \<longrightarrow>
      issue_certificate e l c md s = (Inl (NotFound ''Learner not found''), s))
   \<and> (attachedDeposit e = 0
        \<and> (\<exists>org. organizations s (predecessorAccountId e) = Some org \<and> verified org)
        \<and> individuals s l \<noteq> None \<longrightarrow>
      (\<exists>fx s' cert entry.
         issue_certificate e l c md s =
           (Inr (cert_key (js_increment (certificate_counter s)), fx), s')
         \<and> certificate_counter s' = js_increment (certificate_counter s)
         \<and> certificates s' (cert_key (js_increment (certificate_counter s))) = Some cert
         \<and> status cert = ''pending''
         \<and> get_certificate_history s' (cert_key (js_increment (certificate_counter s))) = [entry]
         \<and> action entry = ''issued''))"
    by (auto simp: issue_certificate_def non_payable_def get_certificate_history_def
        initial_log_def Let_def split: option.splits)
  from calls older show ?thesis by blast
qed

theorem issue_certificate_spec_witness:
  "issued = run (onboarding @ [(host ''school'' 0, Issue_certificate ''alice'' ''course1'' payload)]) init
   \<and> certificate_counter issued < 2 ^ 53
   \<and> issue_certificate (host ''school'' 5) ''alice'' ''course2'' payload issued =
       (Inl (NotPayable ''Function is not payable''), issued)
   \<and> issue_certificate (host ''alice'' 0) ''alice'' ''course2'' payload issued =
       (Inl (Unauthorized ''Only verified organizations can issue certificates''), issued)
   \<and> issue_certificate (host ''school'' 0) ''bob'' ''course2'' payload issued =
       (Inl (NotFound ''Learner not found''), issued)
   \<and> fst (issue_certificate (host ''school'' 0) ''alice'' ''course2'' payload issued) =
       Inr (''cert_2'', [Log ''Certificate issued: cert_2 for alice''])
   \<and> issued_ids (onboarding @ [(host ''school'' 0, Issue_certificate ''alice'' ''course1'' payload)]) init
       = [''cert_1'']
   \<and> map_option status (certificates
        (snd (issue_certificate (host ''school'' 0) ''alice'' ''course2'' payload issued)) ''cert_2'')
       = Some ''pending''
   \<and> map action (get_certificate_history
        (snd (issue_certificate (host ''school'' 0) ''alice'' ''course2'' payload issued)) ''cert_2'')
       = [''issued'']"
proof -
  note spec = issue_certificate_spec [where s = issued
      and cs = "onboarding @ [(host ''school'' 0, Issue_certificate ''alice'' ''course1'' payload)]"
      and md = payload and c = "''course2''"]
  have n: "certificate_counter issued < 2 ^ 53"
    by (simp add: issued_eq)
  have p: "issue_certificate (host ''school'' 5) ''alice'' ''course2'' payload issued =
       (Inl (NotPayable ''Function is not payable''), issued)"
    using spec [of "host ''school'' 5" "''alice''"] by (simp add: host_simps)
  have a: "issue_certificate (host ''alice'' 0) ''alice'' ''course2'' payload issued =
       (Inl (Unauthorized ''Only verified organizations can issue certificates''), issued)"
    using spec [of "host ''alice'' 0" "''alice''"]
    by (simp add: issued_eq verified_school_eq init_def host_simps)
  have b: "issue_certificate (host ''school'' 0) ''bob'' ''course2'' payload issued =
       (Inl (NotFound ''Learner not found''), issued)"
    using spec [of "host ''school'' 0" "''bob''"]
    by (simp add: issued_eq verified_school_eq init_def host_simps)
  have c: "fst (issue_certificate (host ''school'' 0) ''alice'' ''course2'' payload issued) =
       Inr (''cert_2'', [Log ''Certificate issued: cert_2 for alice''])
     \<and> map_option status (certificates
        (snd (issue_certificate (host ''school'' 0) ''alice'' ''course2'' payload issued)) ''cert_2'')
       = Some ''pending''
     \<and> map action (get_certificate_history
        (snd (issue_certificate (host ''school'' 0) ''alice'' ''course2'' payload issued)) ''cert_2'')
       = [''issued'']"
    using spec [of "host ''school'' 0" "''alice''"]
    by (auto simp: issued_eq verified_school_eq init_def host_def cert_key_2 cert_key_Suc_0
        cert_key_1 cert_key_Suc_Suc_0 issue_certificate_def non_payable_def js_increment_def
        get_certificate_history_def initial_log_def Let_def)
  have d: "issued_ids (onboarding @ [(host ''school'' 0, Issue_certificate ''alice'' ''course1'' payload)]) init
       = [''cert_1'']"
    using spec [of "host ''school'' 0" "''alice''"] issued_run n
    by (simp add: issued_eq cert_key_1 cert_key_Suc_0)
  from n p a b c d issued_run show ?thesis by blast
qed

text \<open>
  The claim as stated fails twice. With a deposit attached, the verified \<open>school\<close> gets
  NotPayable for the registered \<open>alice\<close>, not a certificate id. And with the counter at
  \<open>2 ^ 53 - 1\<close>, two calls in a row return the same id, \<open>cert_9007199254740992\<close>.
\<close>

theorem issue_certificate_counterexample:
  "map_option verified (organizations verified_school ''school'') = Some True
   \<and> individuals verified_school ''alice'' \<noteq> None
   \<and> issue_certificate (host ''school'' 5) ''alice'' ''course1'' payload verified_school =
       (Inl (NotPayable ''Function is not payable''), verified_school)
   \<and> fst (issue_certificate (host ''school'' 0) ''alice'' ''course1'' payload last_certificate) =
       Inr (''cert_9007199254740992'', [Log ''Certificate issued: cert_9007199254740992 for alice''])
   \<and> fst (issue_certificate (host ''school'' 0) ''alice'' ''course2'' payload
         (snd (issue_certificate (host ''school'' 0) ''alice'' ''course1'' payload last_certificate))) =
       Inr (''cert_9007199254740992'', [Log ''Certificate issued: cert_9007199254740992 for alice''])"
  by (simp add: last_certificate_def verified_school_eq init_def host_simps issue_certificate_def
      non_payable_def js_increment_def cert_key_max Let_def)

text \<open>
  C2. \<open>validate_certificate\<close> returns the absent value when no certificate has the id;
  throws the Revoked error when the stored status is \<open>revoked\<close>; and for every other
  stored certificate returns its metadata as stored.
\<close>

theorem validate_certificate_cases:
  "(get_certificate s cid = None \<longrightarrow> validate_certificate s cid = Inr None)
   \<and> (\<forall>cert. get_certificate s cid = Some cert \<and> status cert = ''revoked'' \<longrightarrow>
          validate_certificate s cid = Inl (Revoked ''Certificate has been revoked''))
   \<and> (\<forall>cert. get_certificate s cid = Some cert \<and> status cert \<noteq> ''revoked'' \<longrightarrow>
          validate_certificate s cid = Inr (Some (metadata cert)))"
  by (simp add: validate_certificate_def get_certificate_def)

theorem validate_certificate_cases_witness:
  "get_certificate issued ''cert_2'' = None
   \<and> validate_certificate issued ''cert_2'' = Inr None
   \<and> map_option status (get_certificate revoked ''cert_1'') = Some ''revoked''
   \<and> validate_certificate revoked ''cert_1'' = Inl (Revoked ''Certificate has been revoked'')
   \<and> map_option status (get_certificate issued ''cert_1'') = Some ''pending''
   \<and> validate_certificate issued ''cert_1'' =
        Inr (Some (payload\<lparr>learner_id := ''alice'', course_id := ''course1'',
                           issuer_org_id := ''school''\<rparr>))"
proof -
  have a: "get_certificate issued ''cert_2'' = None"
    by (simp add: get_certificate_def issued_eq verified_school_eq init_def)
  have b: "map_option status (get_certificate revoked ''cert_1'') = Some ''revoked''"
    by (simp add: get_certificate_def revoked_eq)
  have c: "map_option status (get_certificate issued ''cert_1'') = Some ''pending''"
    by (simp add: get_certificate_def issued_eq)
  from a validate_certificate_cases [of issued "''cert_2''"]
  have a': "validate_certificate issued ''cert_2'' = Inr None"
    by simp
  from b validate_certificate_cases [of revoked "''cert_1''"]
  have b': "validate_certificate revoked ''cert_1'' = Inl (Revoked ''Certificate has been revoked'')"
    by auto
  from c validate_certificate_cases [of issued "''cert_1''"]
  have c': "validate_certificate issued ''cert_1'' =
        Inr (Some (payload\<lparr>learner_id := ''alice'', course_id := ''course1'',
                           issuer_org_id := ''school''\<rparr>))"
    by (auto simp: get_certificate_def issued_eq)
  from a a' b b' c c' show ?thesis by blast
qed

text \<open>
  C3, as the code has it. Let \<open>issue_certificate\<close> have returned the id \<open>cid\<close> to the caller
  of \<open>e0\<close>, and let a run \<open>cs\<close> of calls follow: any calls when the certificate is numbered
  below \<open>2 ^ 53\<close>, and any calls but \<open>issue_certificate\<close> for the certificate numbered
  \<open>2 ^ 53\<close>. The history of \<open>cid\<close> is then the issuance entry followed, in call order, by
  one entry for each \<open>update_certificate_status\<close> and \<open>revoke_certificate\<close> on \<open>cid\<close> that
  returned, so its length is 1 plus the number of those calls and its first entry is
  always the issuance. After the run, such a call by any account other than the issuer
  fails, with Unauthorized when no deposit is attached and with NotPayable when one is,
  and leaves the state, and so the history, as it was; by the issuer with no deposit
  attached it returns and appends exactly its one entry.
\<close>

theorem certificate_history_spec:
  assumes "issue_certificate e0 l c md s = (Inr (cid, fx), s1)"
    and "certificate_counter s1 < 2 ^ 53 \<or> (\<forall>(e', c') \<in> set cs. \<not> is_issue c')"
  shows "get_certificate_history (run cs s1) cid = initial_log e0 # history_appended cid cs s1
    \<and> length (get_certificate_history (run cs s1) cid) = 1 + successful_mutations cid cs s1
    \<and> (\<forall>e. attachedDeposit e = 0 \<and> predecessorAccountId e \<noteq> predecessorAccountId e0 \<longrightarrow>
          update_certificate_status e cid st (run cs s1) =
            (Inl (Unauthorized ''Unauthorized to update this certificate''), run cs s1)
          \<and> revoke_certificate e cid r (run cs s1) =
            (Inl (Unauthorized ''Unauthorized to revoke this certificate''), run cs s1))
    \<and> (\<forall>e. 0 < attachedDeposit e \<longrightarrow>
          update_certificate_status e cid st (run cs s1) =
            (Inl (NotPayable ''Function is not payable''), run cs s1)
          \<and> revoke_certificate e cid r (run cs s1) =
            (Inl (NotPayable ''Function is not payable''), run cs s1))
    \<and> (\<forall>e. attachedDeposit e = 0 \<and> predecessorAccountId e = predecessorAccountId e0 \<longrightarrow>
          succeeded (update_certificate_status e cid st (run cs s1))
          \<and> get_certificate_history (snd (update_certificate_status e cid st (run cs s1))) cid
              = get_certificate_history (run cs s1) cid @ [status_updated_log e st]
          \<and> succeeded (revoke_certificate e cid r (run cs s1))
          \<and> get_certificate_history (snd (revoke_certificate e cid r (run cs s1))) cid
              = get_certificate_history (run cs s1) cid @ [revoked_log e r])"
proof -
  let ?k = "certificate_counter s1"
  let ?org = "predecessorAccountId e0"
  note issue = bound_to_issue [OF assms(1)]
  have b: "bound_to ?org ?k (run cs s1)"
    using issue(2) assms(2) by (rule bound_to_run)
  have h: "get_certificate_history (run cs s1) cid = initial_log e0 # history_appended cid cs s1"
    using history_run [OF issue(2) assms(2)] issue(1,3) by simp
  have n: "length (get_certificate_history (run cs s1) cid) = 1 + successful_mutations cid cs s1"
    by (simp add: h length_history_appended)
  show ?thesis
    using h n non_issuer_update [OF b] issuer_update [OF b] not_payable(5,6)
    by (simp add: issue(1))
qed

theorem certificate_history_spec_witness:
  "issue_certificate (host ''school'' 0) ''alice'' ''course1'' payload verified_school =
     (Inr (''cert_1'', [Log ''Certificate issued: cert_1 for alice'']), issued)
   \<and> certificate_counter issued < 2 ^ 53
   \<and> map action (get_certificate_history (run lifecycle issued) ''cert_1'')
       = [''issued'', ''status_updated'', ''revoked'']
   \<and> history_appended ''cert_1'' lifecycle issued
       = [status_updated_log (host ''school'' 0) ''completed'',
          revoked_log (host ''school'' 0) ''fraud'']
   \<and> successful_mutations ''cert_1'' lifecycle issued = 2
   \<and> predecessorAccountId (host ''mallory'' 0) \<noteq> predecessorAccountId (host ''school'' 0)
   \<and> update_certificate_status (host ''mallory'' 0) ''cert_1'' ''completed'' (run lifecycle issued)
       = (Inl (Unauthorized ''Unauthorized to update this certificate''), run lifecycle issued)
   \<and> revoke_certificate (host ''mallory'' 0) ''cert_1'' ''spite'' (run lifecycle issued)
       = (Inl (Unauthorized ''Unauthorized to revoke this certificate''), run lifecycle issued)
   \<and> update_certificate_status (host ''school'' 4) ''cert_1'' ''completed'' (run lifecycle issued)
       = (Inl (NotPayable ''Function is not payable''), run lifecycle issued)
   \<and> succeeded (update_certificate_status (host ''school'' 0) ''cert_1'' ''completed''
        (run lifecycle issued))"
proof -
  note run = issue_cert_1
  have below: "certificate_counter issued < 2 ^ 53"
    by (simp add: issued_eq)
  then have hyp: "certificate_counter issued < 2 ^ 53
      \<or> (\<forall>(e', c') \<in> set lifecycle. \<not> is_issue c')"
    by simp
  note spec = certificate_history_spec [OF run hyp, of "''completed''" "''spite''"]
  have h: "get_certificate_history (run lifecycle issued) ''cert_1'' =
      [initial_log (host ''school'' 0), status_updated_log (host ''school'' 0) ''completed'',
       revoked_log (host ''school'' 0) ''fraud'']"
    by (simp add: revoked_def [symmetric] revoked_eq get_certificate_history_def)
  have a: "map action (get_certificate_history (run lifecycle issued) ''cert_1'')
       = [''issued'', ''status_updated'', ''revoked'']"
    by (simp add: h initial_log_def status_updated_log_def revoked_log_def)
  have b: "history_appended ''cert_1'' lifecycle issued
       = [status_updated_log (host ''school'' 0) ''completed'',
          revoked_log (host ''school'' 0) ''fraud'']"
    using spec h by simp
  have c: "successful_mutations ''cert_1'' lifecycle issued = 2"
    using spec h by simp
  have d: "predecessorAccountId (host ''mallory'' 0) \<noteq> predecessorAccountId (host ''school'' 0)"
      "attachedDeposit (host ''mallory'' 0) = 0" "attachedDeposit (host ''school'' 0) = 0"
      "0 < attachedDeposit (host ''school'' 4)"
    by (simp_all add: host_simps)
  have e: "update_certificate_status (host ''mallory'' 0) ''cert_1'' ''completed'' (run lifecycle issued)
       = (Inl (Unauthorized ''Unauthorized to update this certificate''), run lifecycle issued)"
      "revoke_certificate (host ''mallory'' 0) ''cert_1'' ''spite'' (run lifecycle issued)
       = (Inl (Unauthorized ''Unauthorized to revoke this certificate''), run lifecycle issued)"
    using spec d by blast+
  have f: "succeeded (update_certificate_status (host ''school'' 0) ''cert_1'' ''completed''
        (run lifecycle issued))"
    using spec d by blast
  have g: "update_certificate_status (host ''school'' 4) ''cert_1'' ''completed'' (run lifecycle issued)
       = (Inl (NotPayable ''Function is not payable''), run lifecycle issued)"
    using spec d by blast
  from run below a b c d(1) e f g show ?thesis by blast
qed

text \<open>
  The claim as stated fails for a non-issuer who attaches a deposit: \<open>mallory\<close>, who did not
  issue \<open>cert_1\<close>, gets NotPayable, not Unauthorized, from both methods.
\<close>

theorem certificate_history_counterexample:
  "issue_certificate (host ''school'' 0) ''alice'' ''course1'' payload verified_school =
     (Inr (''cert_1'', [Log ''Certificate issued: cert_1 for alice'']), issued)
   \<and> predecessorAccountId (host ''mallory'' 5) \<noteq> predecessorAccountId (host ''school'' 0)
   \<and> update_certificate_status (host ''mallory'' 5) ''cert_1'' ''completed'' issued
       = (Inl (NotPayable ''Function is not payable''), issued)
   \<and> update_certificate_status (host ''mallory'' 5) ''cert_1'' ''completed'' issued
       \<noteq> (Inl (Unauthorized ''Unauthorized to update this certificate''), issued)
   \<and> revoke_certificate (host ''mallory'' 5) ''cert_1'' ''spite'' issued
       = (Inl (NotPayable ''Function is not payable''), issued)
   \<and> revoke_certificate (host ''mallory'' 5) ''cert_1'' ''spite'' issued
       \<noteq> (Inl (Unauthorized ''Unauthorized to revoke this certificate''), issued)"
  by (simp add: issue_cert_1 host_simps update_certificate_status_def revoke_certificate_def
      non_payable_def)

text \<open>
  C4. \<open>process_payment\<close>, for an amount that \<open>BigInt\<close> reads as \<open>n\<close>: it fails with
  InsufficientFunds whenever the attached deposit is below \<open>n\<close>, whatever the recipient;
  it fails with NotFound whenever the attached deposit is at least \<open>n\<close> and the recipient
  is neither a registered individual nor a registered organization; and otherwise, for a
  non-negative \<open>n\<close>, it requests the transfer of \<open>n\<close> to the recipient and returns, the
  state unchanged.
\<close>

theorem process_payment_checks:
  assumes "BigInt e a = Some n"
  shows "(int (attachedDeposit e) < n \<longrightarrow>
            process_payment e r a s =
              (Inl (InsufficientFunds ''Insufficient attached deposit''), s))
         \<and> (n \<le> int (attachedDeposit e) \<and> individuals s r = None \<and> organizations s r = None \<longrightarrow>
            process_payment e r a s = (Inl (NotFound ''Recipient not found''), s))
         \<and> (0 \<le> n \<and> n \<le> int (attachedDeposit e)
              \<and> (individuals s r \<noteq> None \<or> organizations s r \<noteq> None) \<longrightarrow>
            (\<exists>line. process_payment e r a s = (Inr ((), [Transfer r n, Log line]), s)))"
  using assms by (auto simp: process_payment_def Let_def)

theorem process_payment_checks_witness:
  "BigInt (host ''alice'' 10) ''25'' = Some 25
   \<and> process_payment (host ''alice'' 10) ''school'' ''25'' verified_school =
       (Inl (InsufficientFunds ''Insufficient attached deposit''), verified_school)
   \<and> BigInt (host ''alice'' 30) ''25'' = Some 25
   \<and> individuals verified_school ''bob'' = None \<and> organizations verified_school ''bob'' = None
   \<and> process_payment (host ''alice'' 30) ''bob'' ''25'' verified_school =
       (Inl (NotFound ''Recipient not found''), verified_school)
   \<and> organizations verified_school ''school'' \<noteq> None
   \<and> process_payment (host ''alice'' 30) ''school'' ''25'' verified_school =
       (Inr ((), [Transfer ''school'' 25,
                  Log ''Payment processed: alice -> school, amount: 25'']), verified_school)"
proof -
  have p: "BigInt (host ''alice'' 10) ''25'' = Some 25" "BigInt (host ''alice'' 30) ''25'' = Some 25"
    by (simp_all add: host_def decimal_25)
  have d: "attachedDeposit (host ''alice'' 10) = 10" "attachedDeposit (host ''alice'' 30) = 30"
    by (simp_all add: host_def)
  have a: "individuals verified_school ''bob'' = None" "organizations verified_school ''bob'' = None"
      "organizations verified_school ''school'' \<noteq> None"
    by (simp_all add: verified_school_eq init_def)
  have x: "process_payment (host ''alice'' 10) ''school'' ''25'' verified_school =
       (Inl (InsufficientFunds ''Insufficient attached deposit''), verified_school)"
    using process_payment_checks [OF p(1), of "''school''" verified_school] d by simp
  have y: "process_payment (host ''alice'' 30) ''bob'' ''25'' verified_school =
       (Inl (NotFound ''Recipient not found''), verified_school)"
    using process_payment_checks [OF p(2), of "''bob''" verified_school] d a by simp
  have "\<exists>line. process_payment (host ''alice'' 30) ''school'' ''25'' verified_school =
       (Inr ((), [Transfer ''school'' 25, Log line]), verified_school)"
    using process_payment_checks [OF p(2), of "''school''" verified_school] d a by simp
  then have z: "process_payment (host ''alice'' 30) ''school'' ''25'' verified_school =
       (Inr ((), [Transfer ''school'' 25,
                  Log ''Payment processed: alice -> school, amount: 25'']), verified_school)"
    by (auto simp: process_payment_def host_def Let_def split: option.splits if_splits)
  from p a x y z show ?thesis by blast
qed

theorem process_payment_counterexample:
  "BigInt (host ''alice'' 0) ''1'' = Some 1
   \<and> int (attachedDeposit (host ''alice'' 0)) < 1
   \<and> individuals init ''nobody'' = None \<and> organizations init ''nobody'' = None
   \<and> fst (process_payment (host ''alice'' 0) ''nobody'' ''1'' init)
       = Inl (InsufficientFunds ''Insufficient attached deposit'')
   \<and> fst (process_payment (host ''alice'' 0) ''nobody'' ''1'' init)
       \<noteq> Inl (NotFound ''Recipient not found'')"
  by (simp add: process_payment_def host_def init_def decimal_def is_digit_def
      nat_of_string_def digit_value_def Let_def)

text \<open>
  C5, as the code has it. A call of \<open>verify_organization\<close> with a deposit attached fails
  with NotPayable and changes nothing. With no deposit attached it fails with NotFound
  when no organization has the id, and otherwise returns having set the flag \<open>verified\<close>
  of that organization and nothing else. Its outcome does not depend on the caller. No
  call of the contract takes the flag back: an organization that is verified stays
  registered and verified along every run.
\<close>

theorem verify_organization_spec:
  "(0 < attachedDeposit e \<longrightarrow>
      verify_organization e oid s = (Inl (NotPayable ''Function is not payable''), s))
   \<and> (attachedDeposit e = 0 \<and> organizations s oid = None \<longrightarrow>
      verify_organization e oid s = (Inl (NotFound ''Organization not found''), s))
   \<and> (\<forall>org. attachedDeposit e = 0 \<and> organizations s oid = Some org \<longrightarrow>
         verify_organization e oid s =
           (Inr ((), [Log (''Organization verified: '' @ oid)]),
            s\<lparr>organizations := (organizations s)(oid \<mapsto> org\<lparr>verified := True\<rparr>)\<rparr>))
   \<and> verify_organization (e\<lparr>predecessorAccountId := a\<rparr>) oid s = verify_organization e oid s
   \<and> (\<forall>org. organizations s oid = Some org \<and> verified org \<longrightarrow>
         (\<exists>org'. organizations (run cs s) oid = Some org' \<and> verified org'))"
proof -
  have "\<forall>org. organizations s oid = Some org \<and> verified org \<longrightarrow>
         (\<exists>org'. organizations (run cs s) oid = Some org' \<and> verified org')"
    using run_verified by blast
  then show ?thesis
    by (simp add: verify_organization_def non_payable_def split: option.splits)
qed

theorem verify_organization_spec_witness:
  "verify_organization (host ''carol'' 1) ''school'' registered =
       (Inl (NotPayable ''Function is not payable''), registered)
   \<and> organizations registered ''academy'' = None
   \<and> verify_organization (host ''carol'' 0) ''academy'' registered =
       (Inl (NotFound ''Organization not found''), registered)
   \<and> map_option verified (organizations registered ''school'') = Some False
   \<and> succeeded (verify_organization (host ''carol'' 0) ''school'' registered)
   \<and> map_option verified
        (organizations (snd (verify_organization (host ''carol'' 0) ''school'' registered)) ''school'')
       = Some True
   \<and> map_option verified (organizations verified_school ''school'') = Some True
   \<and> map_option verified
        (organizations (run [(host ''school'' 0, Register_organization ''School'' ''x''),
                             (host ''alice'' 0, Verify_organization ''school'')] verified_school)
           ''school'')
       = Some True"
proof -
  have a: "organizations registered ''academy'' = None"
    by (simp add: registered_eq init_def)
  have b: "map_option verified (organizations registered ''school'') = Some False"
    by (simp add: registered_eq)
  have c: "map_option verified (organizations verified_school ''school'') = Some True"
    by (simp add: verified_school_eq)
  from verify_organization_spec [of "host ''carol'' 1" "''school''" registered]
  have p: "verify_organization (host ''carol'' 1) ''school'' registered =
       (Inl (NotPayable ''Function is not payable''), registered)"
    by (simp add: host_simps)
  from a verify_organization_spec [of "host ''carol'' 0" "''academy''" registered]
  have a': "verify_organization (host ''carol'' 0) ''academy'' registered =
       (Inl (NotFound ''Organization not found''), registered)"
    by (simp add: host_simps)
  from b verify_organization_spec [of "host ''carol'' 0" "''school''" registered]
  have b': "succeeded (verify_organization (host ''carol'' 0) ''school'' registered)
     \<and> map_option verified
        (organizations (snd (verify_organization (host ''carol'' 0) ''school'' registered)) ''school'')
       = Some True"
    by (auto simp: host_simps succeeded_def)
  from c verify_organization_spec [where s = verified_school and oid = "''school''"
      and cs = "[(host ''school'' 0, Register_organization ''School'' ''x''),
        (host ''alice'' 0, Verify_organization ''school'')]"]
  have c': "map_option verified
        (organizations (run [(host ''school'' 0, Register_organization ''School'' ''x''),
                             (host ''alice'' 0, Verify_organization ''school'')] verified_school)
           ''school'')
       = Some True"
    by auto
  from p a a' b b' c c' show ?thesis by blast
qed

text \<open>
  The claim as stated fails for a call with a deposit attached: \<open>school\<close> is registered and
  not verified, \<open>carol\<close> verifies it with 1 attached, and the call fails with NotPayable and
  leaves \<open>school\<close> unverified; for the unknown \<open>academy\<close> the same call fails with
  NotPayable, not NotFound.
\<close>

theorem verify_organization_counterexample:
  "map_option verified (organizations registered ''school'') = Some False
   \<and> verify_organization (host ''carol'' 1) ''school'' registered =
       (Inl (NotPayable ''Function is not payable''), registered)
   \<and> organizations registered ''academy'' = None
   \<and> verify_organization (host ''carol'' 1) ''academy'' registered =
       (Inl (NotPayable ''Function is not payable''), registered)
   \<and> verify_organization (host ''carol'' 1) ''academy'' registered \<noteq>
       (Inl (NotFound ''Organization not found''), registered)"
  by (simp add: registered_eq init_def host_simps verify_organization_def non_payable_def)

text \<open>
  C6. When \<open>issue_certificate\<close> returns, the metadata of the stored certificate has the
  \<open>learner_id\<close> and \<open>course_id\<close> of the parameters and the caller as \<open>issuer_org_id\<close>;
  what the payload carries in those three fields has no influence on the call; and
  \<open>course_name\<close>, \<open>completion_date\<close>, \<open>skills\<close> and \<open>grade\<close> are those of the payload.
\<close>

theorem issue_certificate_metadata:
  assumes "issue_certificate e l c md s = (Inr (cid, fx), s')"
  shows "(\<exists>cert. certificates s' cid = Some cert
            \<and> learner_id (metadata cert) = l
            \<and> course_id (metadata cert) = c
            \<and> issuer_org_id (metadata cert) = predecessorAccountId e
            \<and> course_name (metadata cert) = course_name md
            \<and> completion_date (metadata cert) = completion_date md
            \<and> skills (metadata cert) = skills md
            \<and> grade (metadata cert) = grade md)
         \<and> issue_certificate e l c (md\<lparr>learner_id := x, course_id := y, issuer_org_id := z\<rparr>) s
             = issue_certificate e l c md s"
  using assms
  by (auto simp: issue_certificate_def non_payable_def Let_def split: if_splits)

theorem issue_certificate_metadata_witness:
  "issue_certificate (host ''school'' 0) ''alice'' ''course1'' payload verified_school =
     (Inr (''cert_1'', [Log ''Certificate issued: cert_1 for alice'']), issued)
   \<and> learner_id payload = ''mallory'' \<and> course_id payload = ''other''
   \<and> issuer_org_id payload = ''nobody''
   \<and> map_option metadata (certificates issued ''cert_1'') =
       Some \<lparr>learner_id = ''alice'', course_id = ''course1'',
             course_name = ''Blockchain Fundamentals'', completion_date = ''2024-01-15'',
             issuer_org_id = ''school'', skills = [''blockchain'', ''cryptocurrency''],
             grade = Some ''A''\<rparr>"
proof -
  note run = issue_cert_1
  from issue_certificate_metadata [OF run]
  have "\<exists>cert. certificates issued ''cert_1'' = Some cert
            \<and> learner_id (metadata cert) = ''alice''
            \<and> course_id (metadata cert) = ''course1''
            \<and> issuer_org_id (metadata cert) = ''school''
            \<and> course_name (metadata cert) = ''Blockchain Fundamentals''
            \<and> completion_date (metadata cert) = ''2024-01-15''
            \<and> skills (metadata cert) = [''blockchain'', ''cryptocurrency'']
            \<and> grade (metadata cert) = Some ''A''"
    by (simp add: host_def payload_def)
  then have "map_option metadata (certificates issued ''cert_1'') =
       Some \<lparr>learner_id = ''alice'', course_id = ''course1'',
             course_name = ''Blockchain Fundamentals'', completion_date = ''2024-01-15'',
             issuer_org_id = ''school'', skills = [''blockchain'', ''cryptocurrency''],
             grade = Some ''A''\<rparr>"
    by auto
  with run show ?thesis by (simp add: payload_def)
qed

text \<open>
  C7, as the code has it. In the state \<open>s\<close> that a run \<open>cs\<close> of calls reaches from the
  initial state with the reward counter below \<open>2 ^ 53\<close>, \<open>list_rewards\<close> for a learner
  returns, and returns exactly the rewards that the \<open>grant_reward\<close> calls of \<open>cs\<close> for that
  learner stored when they returned, in call order; their ids are numbered in strictly
  ascending order (the \<open>n\<close> of \<open>reward_n\<close>); the list is empty for a learner who was
  granted none. In every state \<open>t\<close>, \<open>grant_reward\<close> for a learner who is not a registered
  individual fails with NotFound when no deposit is attached, and \<open>grant_reward\<close> fails
  with NotPayable when one is, the state unchanged.
\<close>

theorem list_rewards_spec:
  assumes "s = run cs init" and "reward_counter s < 2 ^ 53"
  shows "list_rewards s l = Some (rewards_granted l cs init)
         \<and> (\<exists>ks. sorted_wrt (<) ks
               \<and> map reward_id (rewards_granted l cs init) = map reward_key ks)
         \<and> (rewards_granted l cs init = [] \<longrightarrow> list_rewards s l = Some [])
         \<and> (attachedDeposit e = 0 \<and> individuals t l = None \<longrightarrow>
              grant_reward e l m t = (Inl (NotFound ''Learner not found''), t))
         \<and> (0 < attachedDeposit e \<longrightarrow>
              grant_reward e l m t = (Inl (NotPayable ''Function is not payable''), t))"
proof -
  have stored: "stored_for s l = rewards_granted l cs init"
    using stored_for_run [of cs init l] assms by (simp add: stored_for_init)
  have granted: "list_rewards s l = Some (rewards_granted l cs init)"
    using list_rewards_eq [OF assms(2), of l] stored by simp
  have "rewards_ok s"
    by (simp add: assms rewards_ok_run rewards_ok_init)
  then have ids: "map reward_id (stored_for s l) =
      map reward_key (filter (\<lambda>k. reward_at s l k \<noteq> []) [1..<Suc (reward_counter s)])"
    by (rule stored_for_ids)
  have "sorted_wrt (<) (filter (\<lambda>k. reward_at s l k \<noteq> []) [1..<Suc (reward_counter s)])"
    by (rule sorted_wrt_filter) (rule sorted_wrt_upt)
  with ids stored
  have "\<exists>ks. sorted_wrt (<) ks \<and> map reward_id (rewards_granted l cs init) = map reward_key ks"
    by auto
  with granted show ?thesis
    by (simp add: grant_reward_def non_payable_def)
qed

theorem list_rewards_spec_witness:
  "rewarded = run (onboarding @ granting) init
   \<and> reward_counter rewarded < 2 ^ 53
   \<and> list_rewards rewarded ''alice'' =
       Some [new_reward (host ''mallory'' 0) ''reward_1'' ''alice'' ''first course'',
             new_reward (host ''school'' 0) ''reward_2'' ''alice'' ''second course'']
   \<and> rewards_granted ''alice'' (onboarding @ granting) init =
       [new_reward (host ''mallory'' 0) ''reward_1'' ''alice'' ''first course'',
        new_reward (host ''school'' 0) ''reward_2'' ''alice'' ''second course'']
   \<and> rewards_granted ''bob'' (onboarding @ granting) init = []
   \<and> list_rewards rewarded ''bob'' = Some []
   \<and> individuals rewarded ''bob'' = None
   \<and> grant_reward (host ''mallory'' 0) ''bob'' ''first course'' rewarded =
       (Inl (NotFound ''Learner not found''), rewarded)
   \<and> grant_reward (host ''mallory'' 3) ''alice'' ''first course'' rewarded =
       (Inl (NotPayable ''Function is not payable''), rewarded)"
proof -
  have n: "reward_counter rewarded < 2 ^ 53"
    by (simp add: rewarded_eq)
  note spec = list_rewards_spec [OF rewarded_def n]
  have a: "stored_for rewarded ''alice'' =
       [new_reward (host ''mallory'' 0) ''reward_1'' ''alice'' ''first course'',
        new_reward (host ''school'' 0) ''reward_2'' ''alice'' ''second course'']"
    by (simp add: stored_for_def rewarded_eq reward_at_def reward_key_Suc_0 reward_key_2
        reward_key_Suc_Suc_0 upt_conv_Cons new_reward_def)
  have b: "stored_for rewarded ''bob'' = []"
    by (simp add: stored_for_def rewarded_eq reward_at_def reward_key_Suc_0 reward_key_2
        reward_key_Suc_Suc_0 upt_conv_Cons new_reward_def)
  have c: "individuals rewarded ''bob'' = None"
    by (simp add: rewarded_eq verified_school_eq init_def)
  from spec [of "''alice''"] a list_rewards_eq [OF n, of "''alice''"]
  have a': "list_rewards rewarded ''alice'' =
       Some [new_reward (host ''mallory'' 0) ''reward_1'' ''alice'' ''first course'',
             new_reward (host ''school'' 0) ''reward_2'' ''alice'' ''second course'']
     \<and> rewards_granted ''alice'' (onboarding @ granting) init =
       [new_reward (host ''mallory'' 0) ''reward_1'' ''alice'' ''first course'',
        new_reward (host ''school'' 0) ''reward_2'' ''alice'' ''second course'']"
    by simp
  from spec [of "''bob''"] b list_rewards_eq [OF n, of "''bob''"]
  have b': "rewards_granted ''bob'' (onboarding @ granting) init = []
     \<and> list_rewards rewarded ''bob'' = Some []"
    by simp
  from spec [of "''bob''" "host ''mallory'' 0" rewarded "''first course''"] c
  have c': "grant_reward (host ''mallory'' 0) ''bob'' ''first course'' rewarded =
       (Inl (NotFound ''Learner not found''), rewarded)"
    by (simp add: host_simps)
  from spec [of "''alice''" "host ''mallory'' 3" rewarded "''first course''"]
  have d: "grant_reward (host ''mallory'' 3) ''alice'' ''first course'' rewarded =
       (Inl (NotPayable ''Function is not payable''), rewarded)"
    by (simp add: host_simps)
  from n a' b' c c' d rewarded_def show ?thesis by blast
qed

text \<open>
  The claim as stated fails twice. With a deposit attached, \<open>grant_reward\<close> for the
  unregistered \<open>bob\<close> fails with NotPayable, not NotFound. And with the counter at
  \<open>2 ^ 53 - 1\<close>, two grants to \<open>alice\<close> both return the id \<open>reward_9007199254740992\<close>, and
  \<open>list_rewards\<close> for \<open>alice\<close> then does not return.
\<close>

theorem list_rewards_counterexample:
  "individuals verified_school ''bob'' = None
   \<and> grant_reward (host ''mallory'' 3) ''bob'' ''first course'' verified_school =
       (Inl (NotPayable ''Function is not payable''), verified_school)
   \<and> fst (grant_reward (host ''mallory'' 0) ''alice'' ''first course'' last_reward) =
       Inr (''reward_9007199254740992'',
            [Log ''Reward granted: reward_9007199254740992 to alice for first course''])
   \<and> fst (grant_reward (host ''school'' 0) ''alice'' ''second course''
         (snd (grant_reward (host ''mallory'' 0) ''alice'' ''first course'' last_reward))) =
       Inr (''reward_9007199254740992'',
            [Log ''Reward granted: reward_9007199254740992 to alice for second course''])
   \<and> list_rewards
        (snd (grant_reward (host ''school'' 0) ''alice'' ''second course''
           (snd (grant_reward (host ''mallory'' 0) ''alice'' ''first course'' last_reward))))
        ''alice'' = None"
proof -
  let ?s1 = "snd (grant_reward (host ''mallory'' 0) ''alice'' ''first course'' last_reward)"
  let ?s2 = "snd (grant_reward (host ''school'' 0) ''alice'' ''second course'' ?s1)"
  have a: "individuals verified_school ''bob'' = None
   \<and> grant_reward (host ''mallory'' 3) ''bob'' ''first course'' verified_school =
       (Inl (NotPayable ''Function is not payable''), verified_school)"
    by (simp add: verified_school_eq init_def host_simps grant_reward_def non_payable_def)
  have b: "fst (grant_reward (host ''mallory'' 0) ''alice'' ''first course'' last_reward) =
       Inr (''reward_9007199254740992'',
            [Log ''Reward granted: reward_9007199254740992 to alice for first course''])"
    by (simp add: last_reward_def verified_school_eq init_def host_simps grant_reward_def
        non_payable_def js_increment_def reward_key_max Let_def)
  have c: "fst (grant_reward (host ''school'' 0) ''alice'' ''second course'' ?s1) =
       Inr (''reward_9007199254740992'',
            [Log ''Reward granted: reward_9007199254740992 to alice for second course''])"
    by (simp add: last_reward_def verified_school_eq init_def host_simps grant_reward_def
        non_payable_def js_increment_def reward_key_max Let_def)
  have "reward_counter ?s2 = 2 ^ 53"
    by (simp add: last_reward_def verified_school_eq init_def host_simps grant_reward_def
        non_payable_def js_increment_def Let_def)
  then have d: "list_rewards ?s2 ''alice'' = None"
    by (intro list_rewards_stuck) simp
  from a b c d show ?thesis by blast
qed

text \<open>
  C8, as the code has it. With no deposit attached, \<open>register_individual\<close> by an account
  that has an Individual record, and \<open>register_organization\<close> by an account that has an
  Organization record, fail with AlreadyRegistered; in particular the second of two
  registrations by one account does. With a deposit attached both fail with NotPayable.
  Either way a call by an account that has the record fails and leaves the whole state
  as it was.
\<close>

theorem register_twice_fails:
  "(attachedDeposit e = 0 \<and> individuals s (predecessorAccountId e) \<noteq> None \<longrightarrow>
      register_individual e n d m s =
        (Inl (AlreadyRegistered ''Individual already registered''), s))
   \<and> (attachedDeposit e = 0 \<and> organizations s (predecessorAccountId e) \<noteq> None \<longrightarrow>
      register_organization e n c s =
        (Inl (AlreadyRegistered ''Organization already registered''), s))
   \<and> (succeeded (register_individual e n d m s) \<and> attachedDeposit e' = 0 \<and>
        predecessorAccountId e' = predecessorAccountId e \<longrightarrow>
      register_individual e' n' d' m' (snd (register_individual e n d m s)) =
        (Inl (AlreadyRegistered ''Individual already registered''),
         snd (register_individual e n d m s)))
   \<and> (succeeded (register_organization e n c s) \<and> attachedDeposit e' = 0 \<and>
        predecessorAccountId e' = predecessorAccountId e \<longrightarrow>
      register_organization e' n' c' (snd (register_organization e n c s)) =
        (Inl (AlreadyRegistered ''Organization already registered''),
         snd (register_organization e n c s)))
   \<and> (0 < attachedDeposit e \<longrightarrow>
      register_individual e n d m s = (Inl (NotPayable ''Function is not payable''), s)
      \<and> register_organization e n c s = (Inl (NotPayable ''Function is not payable''), s))
   \<and> (individuals s (predecessorAccountId e) \<noteq> None \<longrightarrow>
      \<not> succeeded (register_individual e n d m s) \<and> snd (register_individual e n d m s) = s)
   \<and> (organizations s (predecessorAccountId e) \<noteq> None \<longrightarrow>
      \<not> succeeded (register_organization e n c s) \<and> snd (register_organization e n c s) = s)"
  by (simp add: register_individual_def register_organization_def non_payable_def
      succeeded_def Let_def)

theorem register_twice_fails_witness:
  "individuals registered ''alice'' \<noteq> None
   \<and> register_individual (host ''alice'' 0) ''Alicia'' ''1991-02-02'' ''alicia@example.com'' registered
       = (Inl (AlreadyRegistered ''Individual already registered''), registered)
   \<and> organizations registered ''school'' \<noteq> None
   \<and> register_organization (host ''school'' 0) ''Academy'' ''academy@example.com'' registered
       = (Inl (AlreadyRegistered ''Organization already registered''), registered)
   \<and> succeeded (register_individual (host ''bob'' 0) ''Bob'' ''1992-03-03'' ''bob@example.com'' init)
   \<and> register_individual (host ''bob'' 0) ''Robert'' ''1992-03-03'' ''rob@example.com''
         (snd (register_individual (host ''bob'' 0) ''Bob'' ''1992-03-03'' ''bob@example.com'' init))
       = (Inl (AlreadyRegistered ''Individual already registered''),
          snd (register_individual (host ''bob'' 0) ''Bob'' ''1992-03-03'' ''bob@example.com'' init))
   \<and> succeeded (register_organization (host ''bob'' 0) ''Bob'' ''bob@example.com'' init)
   \<and> register_organization (host ''bob'' 0) ''Robert'' ''rob@example.com''
         (snd (register_organization (host ''bob'' 0) ''Bob'' ''bob@example.com'' init))
       = (Inl (AlreadyRegistered ''Organization already registered''),
          snd (register_organization (host ''bob'' 0) ''Bob'' ''bob@example.com'' init))
   \<and> register_individual (host ''alice'' 5) ''Alicia'' ''1991-02-02'' ''alicia@example.com'' registered
       = (Inl (NotPayable ''Function is not payable''), registered)
   \<and> snd (register_organization (host ''school'' 5) ''Academy'' ''academy@example.com'' registered)
       = registered"
proof -
  have a: "individuals registered ''alice'' \<noteq> None"
      "organizations registered ''school'' \<noteq> None"
    by (simp_all add: registered_eq)
  have b: "succeeded (register_individual (host ''bob'' 0) ''Bob'' ''1992-03-03'' ''bob@example.com'' init)"
      "succeeded (register_organization (host ''bob'' 0) ''Bob'' ''bob@example.com'' init)"
    by (simp_all add: succeeded_def register_individual_def register_organization_def
        non_payable_def init_def host_simps Let_def)
  show ?thesis
    using a b
      register_twice_fails [where s = registered and e = "host ''alice'' 0"
        and n = "''Alicia''" and d = "''1991-02-02''" and m = "''alicia@example.com''"]
      register_twice_fails [where s = registered and e = "host ''school'' 0"
        and n = "''Academy''" and c = "''academy@example.com''"]
      register_twice_fails [where s = init and e = "host ''bob'' 0" and e' = "host ''bob'' 0"
        and n = "''Bob''" and d = "''1992-03-03''" and m = "''bob@example.com''"
        and c = "''bob@example.com''" and n' = "''Robert''" and d' = "''1992-03-03''"
        and m' = "''rob@example.com''" and c' = "''rob@example.com''"]
      register_twice_fails [where s = registered and e = "host ''alice'' 5"
        and n = "''Alicia''" and d = "''1991-02-02''" and m = "''alicia@example.com''"]
      register_twice_fails [where s = registered and e = "host ''school'' 5"
        and n = "''Academy''" and c = "''academy@example.com''"]
    by (simp add: host_simps)
qed

text \<open>
  The claim as stated fails for a second registration with a deposit attached: \<open>alice\<close>
  and \<open>school\<close> are registered, and with 5 attached their second registrations fail with
  NotPayable, not AlreadyRegistered.
\<close>

theorem register_twice_counterexample:
  "individuals registered ''alice'' \<noteq> None
   \<and> register_individual (host ''alice'' 5) ''Alicia'' ''1991-02-02'' ''alicia@example.com'' registered
       = (Inl (NotPayable ''Function is not payable''), registered)
   \<and> register_individual (host ''alice'' 5) ''Alicia'' ''1991-02-02'' ''alicia@example.com'' registered
       \<noteq> (Inl (AlreadyRegistered ''Individual already registered''), registered)
   \<and> organizations registered ''school'' \<noteq> None
   \<and> register_organization (host ''school'' 5) ''Academy'' ''academy@example.com'' registered
       = (Inl (NotPayable ''Function is not payable''), registered)
   \<and> register_organization (host ''school'' 5) ''Academy'' ''academy@example.com'' registered
       \<noteq> (Inl (AlreadyRegistered ''Organization already registered''), registered)"
  by (simp add: registered_eq host_simps register_individual_def register_organization_def
      non_payable_def)

text \<open>
  C9, as the code has it. \<open>revoked\<close> is not a final status. When \<open>revoke_certificate\<close> has
  returned, the certificate is stored as \<open>revoked\<close> with the caller as its issuer and
  \<open>validate_certificate\<close> throws; an \<open>update_certificate_status\<close> by that issuer with no
  deposit attached then returns for every string \<open>st\<close> and stores \<open>st\<close> as the status;
  and when \<open>st\<close> is not \<open>revoked\<close>, \<open>validate_certificate\<close> returns the metadata again.
  With a deposit attached the update fails with NotPayable and changes nothing.
\<close>

theorem revoked_is_not_final:
  assumes "revoke_certificate e cid r s = (Inr v, s1)"
    and "predecessorAccountId e' = predecessorAccountId e"
    and "attachedDeposit e' = 0"
  shows "(\<exists>cert. certificates s1 cid = Some cert \<and> status cert = ''revoked''
            \<and> issuer_org_id (metadata cert) = predecessorAccountId e)
    \<and> validate_certificate s1 cid = Inl (Revoked ''Certificate has been revoked'')
    \<and> (\<exists>fx s2 cert. update_certificate_status e' cid st s1 = (Inr ((), fx), s2)
          \<and> certificates s2 cid = Some cert \<and> status cert = st
          \<and> (st \<noteq> ''revoked'' \<longrightarrow> validate_certificate s2 cid = Inr (Some (metadata cert))))
    \<and> (0 < attachedDeposit e2 \<longrightarrow>
          update_certificate_status e2 cid st s1 = (Inl (NotPayable ''Function is not payable''), s1))"
  using assms
  by (auto simp: revoke_certificate_def update_certificate_status_def validate_certificate_def
      non_payable_def Let_def split: option.splits if_splits)

theorem revoked_is_not_final_witness:
  "revoke_certificate (host ''school'' 0) ''cert_1'' ''fraud'' issued =
     (Inr ((), [Log ''Certificate cert_1 revoked. Reason: fraud'']),
      snd (revoke_certificate (host ''school'' 0) ''cert_1'' ''fraud'' issued))
   \<and> attachedDeposit (host ''school'' 0) = 0
   \<and> validate_certificate (snd (revoke_certificate (host ''school'' 0) ''cert_1'' ''fraud'' issued))
        ''cert_1'' = Inl (Revoked ''Certificate has been revoked'')
   \<and> succeeded (update_certificate_status (host ''school'' 0) ''cert_1'' ''reinstated''
        (snd (revoke_certificate (host ''school'' 0) ''cert_1'' ''fraud'' issued)))
   \<and> validate_certificate
        (snd (update_certificate_status (host ''school'' 0) ''cert_1'' ''reinstated''
           (snd (revoke_certificate (host ''school'' 0) ''cert_1'' ''fraud'' issued))))
        ''cert_1''
       = Inr (Some (payload\<lparr>learner_id := ''alice'', course_id := ''course1'',
                           issuer_org_id := ''school''\<rparr>))"
proof -
  let ?s1 = "snd (revoke_certificate (host ''school'' 0) ''cert_1'' ''fraud'' issued)"
  have run: "revoke_certificate (host ''school'' 0) ''cert_1'' ''fraud'' issued =
     (Inr ((), [Log ''Certificate cert_1 revoked. Reason: fraud'']), ?s1)"
    by (simp add: prod_eq_iff)
       (simp add: revoke_certificate_def non_payable_def issued_eq host_simps Let_def)
  have zero: "attachedDeposit (host ''school'' 0) = 0"
    by (simp add: host_simps)
  have "''reinstated'' \<noteq> ''revoked''"
    by simp
  with revoked_is_not_final [OF run refl zero, of "''reinstated''"]
  obtain fx s2 cert where
      v: "validate_certificate ?s1 ''cert_1'' = Inl (Revoked ''Certificate has been revoked'')"
    and u: "update_certificate_status (host ''school'' 0) ''cert_1'' ''reinstated'' ?s1
              = (Inr ((), fx), s2)"
    and c: "certificates s2 ''cert_1'' = Some cert"
    and m: "validate_certificate s2 ''cert_1'' = Inr (Some (metadata cert))"
    by blast
  have md: "metadata cert = payload\<lparr>learner_id := ''alice'', course_id := ''course1'',
                           issuer_org_id := ''school''\<rparr>"
    using u c
    by (auto simp: update_certificate_status_def revoke_certificate_def non_payable_def
        issued_eq host_simps Let_def split: option.splits if_splits)
  from run zero v u m md show ?thesis
    by (simp add: succeeded_def)
qed

text \<open>
  The claim as stated fails for an update with a deposit attached: \<open>school\<close> revokes its
  \<open>cert_1\<close>, then updates it with 7 attached; the update fails with NotPayable, and
  \<open>validate_certificate\<close> still throws.
\<close>

theorem revoked_is_not_final_counterexample:
  "succeeded (revoke_certificate (host ''school'' 0) ''cert_1'' ''fraud'' issued)
   \<and> update_certificate_status (host ''school'' 7) ''cert_1'' ''reinstated''
        (snd (revoke_certificate (host ''school'' 0) ''cert_1'' ''fraud'' issued))
       = (Inl (NotPayable ''Function is not payable''),
          snd (revoke_certificate (host ''school'' 0) ''cert_1'' ''fraud'' issued))
   \<and> validate_certificate
        (snd (update_certificate_status (host ''school'' 7) ''cert_1'' ''reinstated''
           (snd (revoke_certificate (host ''school'' 0) ''cert_1'' ''fraud'' issued))))
        ''cert_1''
       = Inl (Revoked ''Certificate has been revoked'')"
  by (simp add: succeeded_def revoke_certificate_def update_certificate_status_def
      validate_certificate_def non_payable_def issued_eq host_simps Let_def)

text \<open>
  C10. \<open>grant_reward\<close> does not look at its caller: with the same arguments, state, clock
  and deposit, two callers get the same outcome and leave the same state. Every account
  can grant: a call with no deposit attached, for a registered learner, returns the id
  numbered by the incremented reward counter and stores under it the reward with that
  id, that learner, that milestone and the amount \<open>"100"\<close>, changing nothing else; and
  when the incremented counter is below \<open>2 ^ 53\<close>, \<open>list_rewards\<close> for the learner then
  returns what it returned before followed by that reward. In every state that a run
  reaches from the initial state every stored reward sits under its own id and has the
  amount \<open>"100"\<close>.
\<close>

theorem grant_reward_any_caller:
  "grant_reward (e\<lparr>predecessorAccountId := a\<rparr>) l m s
     = grant_reward (e\<lparr>predecessorAccountId := b\<rparr>) l m s
   \<and> (attachedDeposit e = 0 \<and> individuals s l \<noteq> None \<longrightarrow>
        grant_reward e l m s =
          (Inr (reward_key (js_increment (reward_counter s)),
                [Log (''Reward granted: '' @ reward_key (js_increment (reward_counter s))
                      @ '' to '' @ l @ '' for '' @ m)]),
           s\<lparr>reward_counter := js_increment (reward_counter s),
             rewards := (rewards s)(reward_key (js_increment (reward_counter s)) \<mapsto>
               \<lparr>reward_id = reward_key (js_increment (reward_counter s)),
                reward_learner_id = l, milestone = m, amount = ''100'',
                granted_at = now e 0\<rparr>)\<rparr>))
   \<and> (attachedDeposit e = 0 \<and> individuals s l \<noteq> None
        \<and> js_increment (reward_counter s) < 2 ^ 53 \<and> list_rewards s l = Some xs \<longrightarrow>
        list_rewards (snd (grant_reward e l m s)) l =
          Some (xs @ [\<lparr>reward_id = reward_key (js_increment (reward_counter s)),
                       reward_learner_id = l, milestone = m, amount = ''100'',
                       granted_at = now e 0\<rparr>]))
   \<and> (\<forall>rid reward. rewards (run cs init) rid = Some reward \<longrightarrow>
         reward_id reward = rid \<and> amount reward = ''100'')"
proof -
  have "rewards_ok (run cs init)"
    by (simp add: rewards_ok_run rewards_ok_init)
  then have inv: "\<forall>rid reward. rewards (run cs init) rid = Some reward \<longrightarrow>
      reward_id reward = rid \<and> amount reward = ''100''"
    by (simp add: rewards_ok_def)
  have grant: "grant_reward e l m s =
          (Inr (reward_key (js_increment (reward_counter s)),
                [Log (''Reward granted: '' @ reward_key (js_increment (reward_counter s))
                      @ '' to '' @ l @ '' for '' @ m)]),
           s\<lparr>reward_counter := js_increment (reward_counter s),
             rewards := (rewards s)(reward_key (js_increment (reward_counter s)) \<mapsto>
               \<lparr>reward_id = reward_key (js_increment (reward_counter s)),
                reward_learner_id = l, milestone = m, amount = ''100'',
                granted_at = now e 0\<rparr>)\<rparr>)"
    if "attachedDeposit e = 0" and "individuals s l \<noteq> None"
    using that by (simp add: grant_reward_def non_payable_def new_reward_def Let_def)
  have listed: "list_rewards (snd (grant_reward e l m s)) l =
          Some (xs @ [\<lparr>reward_id = reward_key (js_increment (reward_counter s)),
                       reward_learner_id = l, milestone = m, amount = ''100'',
                       granted_at = now e 0\<rparr>])"
    if zero: "attachedDeposit e = 0" and reg: "individuals s l \<noteq> None"
      and below: "js_increment (reward_counter s) < 2 ^ 53" and xs: "list_rewards s l = Some xs"
  proof -
    let ?t = "snd (grant_reward e l m s)"
    let ?rid = "reward_key (js_increment (reward_counter s))"
    from grant [OF zero reg] have out: "grant_reward e l m s =
        (Inr (?rid, [Log (''Reward granted: '' @ ?rid @ '' to '' @ l @ '' for '' @ m)]), ?t)"
      by simp
    from grant [OF zero reg] below have t: "reward_counter ?t < 2 ^ 53"
      by simp
    from below js_increment_ge [of "reward_counter s"] have "reward_counter s < 2 ^ 53"
      by simp
    from list_rewards_eq [OF this, of l] xs have "stored_for s l = xs"
      by simp
    with stored_for_grant [OF out t, of l] list_rewards_eq [OF t, of l]
    show ?thesis
      by (simp add: new_reward_def)
  qed
  have same: "grant_reward (e\<lparr>predecessorAccountId := a\<rparr>) l m s
     = grant_reward (e\<lparr>predecessorAccountId := b\<rparr>) l m s"
    by (simp add: grant_reward_def non_payable_def new_reward_def Let_def)
  from same grant listed inv show ?thesis
    by blast
qed

theorem grant_reward_any_caller_witness:
  "individuals verified_school ''mallory'' = None
   \<and> organizations verified_school ''mallory'' = None
   \<and> individuals verified_school ''alice'' \<noteq> None
   \<and> grant_reward (host ''mallory'' 0) ''alice'' ''first course'' verified_school
       = grant_reward (host ''school'' 0) ''alice'' ''first course'' verified_school
   \<and> fst (grant_reward (host ''mallory'' 0) ''alice'' ''first course'' verified_school)
       = Inr (''reward_1'', [Log ''Reward granted: reward_1 to alice for first course''])
   \<and> rewards (snd (grant_reward (host ''mallory'' 0) ''alice'' ''first course'' verified_school))
        ''reward_1''
       = Some \<lparr>reward_id = ''reward_1'', reward_learner_id = ''alice'',
               milestone = ''first course'', amount = ''100'',
               granted_at = ''2024-01-15T00:00:00.000Z''\<rparr>
   \<and> list_rewards verified_school ''alice'' = Some []
   \<and> list_rewards (snd (grant_reward (host ''mallory'' 0) ''alice'' ''first course'' verified_school))
        ''alice''
       = Some [\<lparr>reward_id = ''reward_1'', reward_learner_id = ''alice'',
                milestone = ''first course'', amount = ''100'',
                granted_at = ''2024-01-15T00:00:00.000Z''\<rparr>]
   \<and> map_option amount (rewards (run (onboarding @ granting) init) ''reward_2'') = Some ''100''"
proof -
  have a: "individuals verified_school ''mallory'' = None"
      "organizations verified_school ''mallory'' = None"
      "individuals verified_school ''alice'' \<noteq> None"
    by (simp_all add: verified_school_eq init_def)
  have h: "host ''mallory'' 0 = (host ''mallory'' 0)\<lparr>predecessorAccountId := ''mallory''\<rparr>"
      "host ''school'' 0 = (host ''mallory'' 0)\<lparr>predecessorAccountId := ''school''\<rparr>"
    by (simp_all add: host_def)
  have z: "attachedDeposit (host ''mallory'' 0) = 0"
      "now (host ''mallory'' 0) 0 = ''2024-01-15T00:00:00.000Z''"
    by (simp_all add: host_simps)
  have n: "reward_counter verified_school = 0"
    by (simp add: verified_school_eq init_def)
  then have inc: "js_increment (reward_counter verified_school) = Suc 0"
      "js_increment (reward_counter verified_school) < 2 ^ 53"
    by (simp_all add: js_increment_def)
  have before: "list_rewards verified_school ''alice'' = Some []"
    using list_rewards_eq [of verified_school "''alice''"] n by (simp add: stored_for_def)
  note spec = grant_reward_any_caller [where e = "host ''mallory'' 0" and a = "''mallory''"
      and b = "''school''" and l = "''alice''" and m = "''first course''"
      and s = verified_school and cs = "onboarding @ granting" and xs = "[]"]
  have b: "grant_reward (host ''mallory'' 0) ''alice'' ''first course'' verified_school
       = grant_reward (host ''school'' 0) ''alice'' ''first course'' verified_school"
    using spec h by simp
  from spec a(3) z inc(1)
  have out: "grant_reward (host ''mallory'' 0) ''alice'' ''first course'' verified_school =
      (Inr (''reward_1'', [Log ''Reward granted: reward_1 to alice for first course'']),
       verified_school\<lparr>reward_counter := Suc 0,
         rewards := (rewards verified_school)(''reward_1'' \<mapsto>
           \<lparr>reward_id = ''reward_1'', reward_learner_id = ''alice'',
            milestone = ''first course'', amount = ''100'',
            granted_at = ''2024-01-15T00:00:00.000Z''\<rparr>)\<rparr>)"
    by (simp add: reward_key_Suc_0)
  from spec a(3) z(1) inc(2) before
  have "list_rewards
      (snd (grant_reward (host ''mallory'' 0) ''alice'' ''first course'' verified_school)) ''alice''
       = Some ([] @ [\<lparr>reward_id = reward_key (js_increment (reward_counter verified_school)),
                reward_learner_id = ''alice'', milestone = ''first course'', amount = ''100'',
                granted_at = now (host ''mallory'' 0) 0\<rparr>])"
    by blast
  then have after: "list_rewards
      (snd (grant_reward (host ''mallory'' 0) ''alice'' ''first course'' verified_school)) ''alice''
       = Some [\<lparr>reward_id = ''reward_1'', reward_learner_id = ''alice'',
                milestone = ''first course'', amount = ''100'',
                granted_at = ''2024-01-15T00:00:00.000Z''\<rparr>]"
    by (simp add: inc(1) z(2) reward_key_Suc_0)
  have "rewards (run (onboarding @ granting) init) ''reward_2'' \<noteq> None"
    by (simp add: rewarded_def [symmetric] rewarded_eq)
  with spec have d: "map_option amount (rewards (run (onboarding @ granting) init) ''reward_2'')
      = Some ''100''"
    by auto
  have c: "fst (grant_reward (host ''mallory'' 0) ''alice'' ''first course'' verified_school)
       = Inr (''reward_1'', [Log ''Reward granted: reward_1 to alice for first course''])"
      "rewards (snd (grant_reward (host ''mallory'' 0) ''alice'' ''first course'' verified_school))
        ''reward_1''
       = Some \<lparr>reward_id = ''reward_1'', reward_learner_id = ''alice'',
               milestone = ''first course'', amount = ''100'',
               granted_at = ''2024-01-15T00:00:00.000Z''\<rparr>"
    by (simp_all add: out)
  from a b c before after d show ?thesis
    by blast
qed

end
